theory Spec2Isabelle
  imports Main
begin

section \<open>JavaScript and Node primitives used by the export pipeline\<close>

text \<open>
  Strings are \<^typ>\<open>string\<close>. A JavaScript string is falsy exactly when it is empty, and an
  optional value is falsy when it is \<open>undefined\<close>; \<open>truthy\<close> is that test on an optional
  string, as in \<^verbatim>\<open>if (filename || disableTemplate || template)\<close>.
\<close>

fun truthy :: "string option \<Rightarrow> bool" where
  "truthy None = False"
| "truthy (Some s) = (s \<noteq> [])"

definition digit :: "nat \<Rightarrow> char" where
  "digit n = ''0123456789'' ! (n mod 10)"

text \<open>Decimal rendering of a non-negative integer, as a template literal \<^verbatim>\<open>`${n}`\<close> prints it.\<close>

function showNat :: "nat \<Rightarrow> string" where
  "showNat n = (if n < 10 then [digit n] else showNat (n div 10) @ [digit n])"
  by pat_completeness auto
termination
  by (relation "measure id") auto

declare showNat.simps [simp del]

fun splitOn :: "char \<Rightarrow> string \<Rightarrow> string list" where
  "splitOn c [] = [[]]"
| "splitOn c (x # xs) =
     (if x = c then [] # splitOn c xs
      else (case splitOn c xs of [] \<Rightarrow> [[x]] | s # ss \<Rightarrow> (x # s) # ss))"

fun joinWith :: "string \<Rightarrow> string list \<Rightarrow> string" where
  "joinWith sep [] = []"
| "joinWith sep [s] = s"
| "joinWith sep (s # t # ss) = s @ sep @ joinWith sep (t # ss)"

subsection \<open>\<open>node:path\<close>, POSIX flavour\<close>

text \<open>
  The pipeline calls \<^verbatim>\<open>path.parse\<close>, \<^verbatim>\<open>path.join\<close>, \<^verbatim>\<open>path.format\<close>, \<^verbatim>\<open>path.dirname\<close>,
  \<^verbatim>\<open>path.extname\<close> and \<^verbatim>\<open>path.resolve\<close> of the Node standard library. They are not part of
  the repository; the definitions below follow Node's POSIX implementation
  (\<^verbatim>\<open>lib/path.js\<close>): the separator is \<^verbatim>\<open>/\<close>, trailing separators are skipped when the last
  component is looked for, the extension starts at the last dot of the last component
  unless that dot is its first character or the component is \<^verbatim>\<open>..\<close>, and \<^verbatim>\<open>normalize\<close>
  drops empty and \<^verbatim>\<open>.\<close> segments and resolves \<^verbatim>\<open>..\<close> against the segment before it.
\<close>

record parsedPath =
  root :: string
  dir :: string
  base :: string
  ext :: string
  name :: string

definition isSlash :: "char \<Rightarrow> bool" where
  "isSlash c = (c = CHR ''/'')"

definition isAbsolute :: "string \<Rightarrow> bool" where
  "isAbsolute p = (case p of [] \<Rightarrow> False | c # _ \<Rightarrow> isSlash c)"

definition splitExt :: "string \<Rightarrow> string \<times> string" where
  "splitExt b =
     (if CHR ''.'' \<notin> set b then (b, [])
      else
        let e = rev (takeWhile (\<lambda>c. c \<noteq> CHR ''.'') (rev b));
            n = rev (tl (dropWhile (\<lambda>c. c \<noteq> CHR ''.'') (rev b)))
        in if n = [] \<or> b = ''..'' then (b, []) else (n, CHR ''.'' # e))"

definition posix_parse :: "string \<Rightarrow> parsedPath" where
  "posix_parse p =
     (let abs = isAbsolute p;
          body = (if abs then tl p else p);
          trimmed = rev (dropWhile isSlash (rev body));
          b = rev (takeWhile (\<lambda>c. \<not> isSlash c) (rev trimmed));
          before = dropWhile (\<lambda>c. \<not> isSlash c) (rev trimmed);
          r = (if abs then ''/'' else []);
          d = (case before of [] \<Rightarrow> r | _ # rest \<Rightarrow> r @ rev rest)
      in \<lparr>root = r, dir = d, base = b, ext = snd (splitExt b), name = fst (splitExt b)\<rparr>)"

text \<open>
  \<^verbatim>\<open>normalizeString\<close>: the segments are consumed left to right; \<open>acc\<close> holds the kept
  segments, last one first.
\<close>

fun normalizeSegments :: "bool \<Rightarrow> string list \<Rightarrow> string list \<Rightarrow> string list" where
  "normalizeSegments allowAboveRoot acc [] = rev acc"
| "normalizeSegments allowAboveRoot acc (s # ss) =
     (if s = [] \<or> s = ''.'' then normalizeSegments allowAboveRoot acc ss
      else if s = ''..'' then
        (case acc of
           [] \<Rightarrow> normalizeSegments allowAboveRoot (if allowAboveRoot then [''..''] else []) ss
         | t # ts \<Rightarrow>
             if t = ''..''
             then normalizeSegments allowAboveRoot (if allowAboveRoot then ''..'' # acc else acc) ss
             else normalizeSegments allowAboveRoot ts ss)
      else normalizeSegments allowAboveRoot (s # acc) ss)"

definition normalizeString :: "string \<Rightarrow> bool \<Rightarrow> string" where
  "normalizeString p allowAboveRoot =
     joinWith ''/'' (normalizeSegments allowAboveRoot [] (splitOn CHR ''/'' p))"

definition posix_normalize :: "string \<Rightarrow> string" where
  "posix_normalize p =
     (if p = [] then ''.''
      else
        let abs = isAbsolute p;
            trailingSeparator = isSlash (last p);
            q = normalizeString p (\<not> abs)
        in if q = [] then (if abs then ''/'' else if trailingSeparator then ''./'' else ''.'')
           else (if abs then ''/'' else []) @ q @ (if trailingSeparator then ''/'' else []))"

definition posix_join :: "string list \<Rightarrow> string" where
  "posix_join args =
     (case filter (\<lambda>a. a \<noteq> []) args of
        [] \<Rightarrow> ''.''
      | as \<Rightarrow> posix_normalize (joinWith ''/'' as))"


section \<open>Export Job Resolver\<close>

subsection \<open>Export declarations\<close>

text \<open>
  \<^verbatim>\<open>Export\<close> is a front-matter export entry, \<^verbatim>\<open>ExportWithOutput\<close> the same entry with its
  output path resolved. The record is parametric in the type of the output path (the field
  \<open>outputPath\<close>, the source's \<^verbatim>\<open>output\<close>): an optional string for a declaration, a
  string for a resolved job. The optional \<^verbatim>\<open>template\<close> field
  (\<^verbatim>\<open>string | null | undefined\<close>) is \<open>Unspecified\<close> for \<^verbatim>\<open>undefined\<close>, \<open>Disabled\<close> for
  \<^verbatim>\<open>null\<close> and \<open>Template t\<close> for a string.
\<close>

datatype exportFormats = pdf | tex | pdftex | typst | docx | xml | md | meca

datatype templateRef = Unspecified | Disabled | Template string

record 'o export =
  format :: exportFormats
  outputPath :: 'o
  template :: templateRef
  articles :: "string list option"
  sub_articles :: "string list option"

fun definedOnly :: "'a option list \<Rightarrow> 'a list" where
  "definedOnly [] = []"
| "definedOnly (None # xs) = definedOnly xs"
| "definedOnly (Some x # xs) = x # definedOnly xs"

subsection \<open>\<open>filterAndMakeUnique\<close>\<close>

text \<open>
  \<^verbatim>\<open>nMatch(a)\<close> counts the jobs of \<open>a\<close> whose output equals that of the job at hand. A job
  whose output occurs once in the batch is copied; any other job gets
  \<^verbatim>\<open>path.join(dir, `${name}_${nMatch(arr.slice(0, ind))}${ext}`)\<close>.
\<close>

definition nMatch :: "string \<Rightarrow> (string, 'z) export_scheme list \<Rightarrow> nat" where
  "nMatch out a = length (filter (\<lambda>e. outputPath e = out) a)"

definition makeUnique ::
  "(string, 'z) export_scheme list \<Rightarrow> nat \<Rightarrow> (string, 'z) export_scheme \<Rightarrow> (string, 'z) export_scheme"
where
  "makeUnique arr ind exp =
     (if nMatch (outputPath exp) arr = 1 then exp
      else
        let p = posix_parse (outputPath exp)
        in exp\<lparr>outputPath :=
             posix_join [dir p, name p @ ''_'' @ showNat (nMatch (outputPath exp) (take ind arr)) @ ext p]\<rparr>)"

definition filterAndMakeUnique ::
  "(string, 'z) export_scheme option list \<Rightarrow> (string, 'z) export_scheme list"
where
  "filterAndMakeUnique exports =
     (let arr = definedOnly exports
      in map (\<lambda>(ind, exp). makeUnique arr ind exp) (enumerate 0 arr))"


section \<open>Inline citations\<close>

text \<open>
  \<^verbatim>\<open>CitationJson\<close> with the fields \<^verbatim>\<open>getInlineCitation\<close> reads. \<^verbatim>\<open>author\<close> is an optional
  array of names. \<^verbatim>\<open>editor\<close> is not declared: it is read through the
  \<^verbatim>\<open>Record<string, any>\<close> part of the type, so it can hold any value. \<open>editorValue\<close> has
  one value for each way the function can treat it:
  \<^item> \<open>EditorUndefined\<close>: \<^verbatim>\<open>undefined\<close>, \<^verbatim>\<open>null\<close> or another falsy value;
  \<^item> \<open>EditorArray\<close>: an array, or another truthy value whose \<^verbatim>\<open>length\<close> is 0, 1, 2 or
    greater than 2; an element is \<open>None\<close> when it is \<^verbatim>\<open>null\<close> or \<^verbatim>\<open>undefined\<close>, so that reading
    its \<^verbatim>\<open>family\<close> raises a \<^verbatim>\<open>TypeError\<close>, and otherwise a name whose \<open>family\<close> is the text
    the element's \<^verbatim>\<open>family\<close> prints as;
  \<^item> \<open>EditorOther\<close>: a truthy value for which every test on \<^verbatim>\<open>length\<close> fails, such as the
    object \<^verbatim>\<open>{}\<close>, a non-zero number, \<^verbatim>\<open>true\<close> or an object whose \<^verbatim>\<open>length\<close> is \<^verbatim>\<open>NaN\<close>.
  \<^verbatim>\<open>issued\<close> holds the \<^verbatim>\<open>date-parts\<close> array when present. Numbers are integers.
\<close>

record cslName =
  given :: string
  family :: string

datatype editorValue = EditorUndefined | EditorArray "cslName option list" | EditorOther

record citationJson =
  author :: "cslName list option"
  editor :: editorValue
  issued :: "int list list option"
  publisher :: "string option"
  title :: "string option"

datatype inlineCite = InlineCite_p | InlineCite_t

datatype partialKind = Partial_author | Partial_year

record inlineOptions =
  prefix :: "string option"
  suffix :: "string option"
  partial :: "partialKind option"

datatype inlineNode =
  InlineNode (ntype: string) (nvalue: "string option") (nchildren: "inlineNode list option")

text \<open>
  The two ways the function ends without a value: its own
  \<^verbatim>\<open>throw new Error('Unknown number of authors for citation')\<close>, and the \<^verbatim>\<open>TypeError\<close> of
  reading \<^verbatim>\<open>.family\<close> of \<^verbatim>\<open>null\<close> or \<^verbatim>\<open>undefined\<close>.
\<close>

datatype citeError = UnknownNumberOfAuthors | TypeError

definition showInt :: "int \<Rightarrow> string" where
  "showInt i = (if i < 0 then CHR ''-'' # showNat (nat (- i)) else showNat (nat i))"

text \<open>A template literal prints \<^verbatim>\<open>undefined\<close> for a missing value.\<close>

definition showYear :: "int option \<Rightarrow> string" where
  "showYear y = (case y of None \<Rightarrow> ''undefined'' | Some n \<Rightarrow> showInt n)"

definition showText :: "string option \<Rightarrow> string" where
  "showText s = (case s of None \<Rightarrow> ''undefined'' | Some v \<Rightarrow> v)"

text \<open>\<^verbatim>\<open>data.issued?.['date-parts']?.[0]?.[0]\<close>\<close>

definition issuedYear :: "citationJson \<Rightarrow> int option" where
  "issuedYear data =
     (case issued data of
        None \<Rightarrow> None
      | Some [] \<Rightarrow> None
      | Some ([] # _) \<Rightarrow> None
      | Some ((y # _) # _) \<Rightarrow> Some y)"

text \<open>\<^verbatim>\<open>a || b\<close> on optional strings: the first operand when it is truthy, else the second.\<close>

definition orElse :: "string option \<Rightarrow> string option \<Rightarrow> string option" where
  "orElse a b = (if truthy a then a else b)"

definition textNode :: "string \<Rightarrow> inlineNode" where
  "textNode v = InlineNode ''text'' (Some v) None"

text \<open>
  \<^verbatim>\<open>authors\<close> is \<^verbatim>\<open>data.author\<close>, or \<^verbatim>\<open>data.editor\<close> when there is no author. For a value
  without a numeric \<^verbatim>\<open>length\<close> every comparison of \<^verbatim>\<open>authors.length\<close> is false, which leads
  to the final \<^verbatim>\<open>throw\<close>.
\<close>

definition getInlineCitation ::
  "citationJson \<Rightarrow> inlineCite \<Rightarrow> inlineOptions option \<Rightarrow> citeError + inlineNode list"
where
  "getInlineCitation data kind opts =
     (let authors0 = author data;
          authors = (if authors0 = None \<or> authors0 = Some [] then editor data
                     else EditorArray (map Some (the authors0)));
          year = showYear (issuedYear data);
          optPrefix = (case opts of None \<Rightarrow> None | Some opt \<Rightarrow> prefix opt);
          optSuffix = (case opts of None \<Rightarrow> None | Some opt \<Rightarrow> suffix opt);
          optPartial = (case opts of None \<Rightarrow> None | Some opt \<Rightarrow> partial opt);
          prefixText = (if truthy optPrefix then the optPrefix @ '' '' else []);
          suffixText = (if truthy optSuffix then '', '' @ the optSuffix else []);
          yearPart0 = (if kind = InlineCite_t then '' ('' @ year @ suffixText @ '')''
                       else '', '' @ year @ suffixText);
          yearPart = (if optPartial = Some Partial_author then [] else yearPart0);
          noAuthors = Inr [textNode (prefixText @ showText (orElse (publisher data) (title data))
                                     @ yearPart)]
      in if optPartial = Some Partial_year then
           Inr [textNode (if kind = InlineCite_t then ''('' @ year @ suffixText @ '')''
                          else year @ suffixText)]
         else
           (case authors of
              EditorUndefined \<Rightarrow> noAuthors
            | EditorOther \<Rightarrow> Inl UnknownNumberOfAuthors
            | EditorArray as \<Rightarrow>
                if length as = 0 then noAuthors
                else if length as = 1 then
                  (case as ! 0 of
                     None \<Rightarrow> Inl TypeError
                   | Some a \<Rightarrow> Inr [textNode (prefixText @ family a @ yearPart)])
                else if length as = 2 then
                  (case as ! 0 of
                     None \<Rightarrow> Inl TypeError
                   | Some a \<Rightarrow>
                       (case as ! 1 of
                          None \<Rightarrow> Inl TypeError
                        | Some b \<Rightarrow>
                            Inr [textNode (prefixText @ family a @ '' & '' @ family b @ yearPart)]))
                else if length as > 2 then
                  (case as ! 0 of
                     None \<Rightarrow> Inl TypeError
                   | Some a \<Rightarrow>
                       Inr [textNode (prefixText @ family a @ '' ''),
                            InlineNode ''emphasis'' None (Some [textNode ''et al.'']),
                            textNode yearPart])
                else Inl UnknownNumberOfAuthors))"

definition exampleCitation :: "cslName list option \<Rightarrow> editorValue \<Rightarrow> citationJson" where
  "exampleCitation as ed = \<lparr>author = as, editor = ed, issued = Some [[2020, 5]],
                             publisher = None, title = Some ''A title''\<rparr>"

definition exampleName :: "string \<Rightarrow> cslName" where
  "exampleName f = \<lparr>given = ''A.'', family = f\<rparr>"

section \<open>Jupyter server discovery\<close>

record jupyterServerListItem =
  base_url :: string
  hostname :: string
  password :: bool
  pid :: int
  port :: int
  root_dir :: string
  secure :: bool
  sock :: string
  token :: string
  url :: string
  version :: string

text \<open>
  \<^verbatim>\<open>JupyterServerSettings\<close>: the two fields \<^verbatim>\<open>findExistingJupyterServer\<close> fills in
  (\<^verbatim>\<open>baseUrl\<close> and \<^verbatim>\<open>token\<close>; the field is named \<open>serverToken\<close> here, \<open>token\<close> being the
  field of the list item).
\<close>

record jupyterServerSettings =
  baseUrl :: string
  serverToken :: string

text \<open>
  The result of \<^verbatim>\<open>spawnSync\<close>: \<^verbatim>\<open>status\<close> is the exit code, \<^verbatim>\<open>null\<close> (\<open>None\<close>) when the
  process was ended by a signal.
\<close>

record spawnResult =
  status :: "int option"
  stdout :: string

text \<open>
  The host: \<^verbatim>\<open>which.sync('python')\<close> (it throws when no executable is found, \<open>None\<close> here),
  \<^verbatim>\<open>spawnSync\<close>, and \<^verbatim>\<open>JSON.parse\<close> read at the list type (\<open>None\<close> when it throws).
\<close>

record host =
  which_sync :: "string \<Rightarrow> string option"
  spawnSync :: "string \<Rightarrow> string list \<Rightarrow> spawnResult"
  JSON_parse :: "string \<Rightarrow> jupyterServerListItem list option"

datatype hostError = WhichNotFound | JSONSyntaxError

text \<open>
  \<^verbatim>\<open>servers.sort((a, b) => a.pid - b.pid)\<close> is a stable ascending sort on \<^verbatim>\<open>pid\<close>
  (\<^verbatim>\<open>Array.prototype.sort\<close> is stable), \<^verbatim>\<open>servers.pop()\<close> takes the last element.
\<close>

definition findExistingJupyterServer :: "host \<Rightarrow> hostError + jupyterServerSettings option" where
  "findExistingJupyterServer h =
     (case which_sync h ''python'' of
        None \<Rightarrow> Inl WhichNotFound
      | Some pythonPath \<Rightarrow>
          let listProc = spawnSync h pythonPath [''-m'', ''jupyter_server'', ''list'', ''--jsonlist'']
          in if status listProc \<noteq> Some 0 then Inr None
             else
               (case JSON_parse h (stdout listProc) of
                  None \<Rightarrow> Inl JSONSyntaxError
                | Some servers \<Rightarrow>
                    if length servers = 0 then Inr None
                    else
                      let server = last (sort_key pid servers)
                      in Inr (Some \<lparr>baseUrl = url server, serverToken = token server\<rparr>)))"

section \<open>Document trees\<close>

text \<open>
  A \<^verbatim>\<open>GenericNode\<close> of the document tree: a literal carries its \<^verbatim>\<open>type\<close> and an optional
  \<^verbatim>\<open>value\<close> and has no \<^verbatim>\<open>children\<close> field; a parent carries its \<^verbatim>\<open>type\<close>, the tags of
  \<^verbatim>\<open>data.tags\<close> (empty when there are none) and its \<^verbatim>\<open>children\<close>.
\<close>

datatype node =
  Leaf string "string option"
| Parent string "string list" "node list"

fun nodeType :: "node \<Rightarrow> string" where
  "nodeType (Leaf ty v) = ty"
| "nodeType (Parent ty tags cs) = ty"

text \<open>\<^verbatim>\<open>node.children\<close>, \<open>None\<close> for \<^verbatim>\<open>undefined\<close>.\<close>

fun childrenOpt :: "node \<Rightarrow> node list option" where
  "childrenOpt (Leaf ty v) = None"
| "childrenOpt (Parent ty tags cs) = Some cs"

text \<open>\<^verbatim>\<open>node.children\<close> of a node used as a \<^verbatim>\<open>GenericParent\<close>.\<close>

fun nodeChildren :: "node \<Rightarrow> node list" where
  "nodeChildren (Leaf ty v) = []"
| "nodeChildren (Parent ty tags cs) = cs"

fun nodeTags :: "node \<Rightarrow> string list" where
  "nodeTags (Leaf ty v) = []"
| "nodeTags (Parent ty tags cs) = tags"

fun nodeValue :: "node \<Rightarrow> string option" where
  "nodeValue (Leaf ty v) = v"
| "nodeValue (Parent ty tags cs) = None"

text \<open>
  A position in a tree is the list of child indices that leads to it from the root;
  \<open>nodeAt\<close> is the node at a position, if there is one.
\<close>

fun nodeAt :: "node \<Rightarrow> nat list \<Rightarrow> node option" where
  "nodeAt n [] = Some n"
| "nodeAt n (i # p) =
     (case childrenOpt n of
        None \<Rightarrow> None
      | Some cs \<Rightarrow> if i < length cs then nodeAt (cs ! i) p else None)"

text \<open>
  \<^verbatim>\<open>selectAll(type, tree)\<close> and \<^verbatim>\<open>select(type, tree)\<close> of \<^verbatim>\<open>unist-util-select\<close> for a type
  selector: all nodes of that type, the tree's root included, in document order
  (a node before its descendants); \<^verbatim>\<open>select\<close> gives the first of them or \<^verbatim>\<open>null\<close>.
\<close>

fun selectAll :: "string \<Rightarrow> node \<Rightarrow> node list" where
  "selectAll t (Leaf ty v) = (if ty = t then [Leaf ty v] else [])"
| "selectAll t (Parent ty tags cs) =
     (if ty = t then [Parent ty tags cs] else []) @ concat (map (selectAll t) cs)"

definition select :: "string \<Rightarrow> node \<Rightarrow> node option" where
  "select t n = (case selectAll t n of [] \<Rightarrow> None | x # _ \<Rightarrow> Some x)"

record pageFrontmatter =
  title :: "string option"
  content_includes_title :: "bool option"

type_synonym references = "string list"

section \<open>Side-Data Merger\<close>

text \<open>
  A JavaScript object used as a mapping is an association list with one entry per key, in
  insertion order. \<open>mergeRecord\<close> is the spread \<^verbatim>\<open>{ ...cur, ...nxt }\<close>: the keys of \<open>cur\<close>
  keep their place and take the value of \<open>nxt\<close> where \<open>nxt\<close> has the key, and the new keys of
  \<open>nxt\<close> follow. \<open>overwrittenKeys\<close> are the keys of \<open>nxt\<close> that \<open>cur\<close> already has.
\<close>

definition mergeRecord :: "(string \<times> 'v) list \<Rightarrow> (string \<times> 'v) list \<Rightarrow> (string \<times> 'v) list" where
  "mergeRecord cur nxt =
     map (\<lambda>(k, v). (k, case map_of nxt k of None \<Rightarrow> v | Some w \<Rightarrow> w)) cur @
     filter (\<lambda>(k, w). k \<notin> fst ` set cur) nxt"

definition overwrittenKeys :: "(string \<times> 'v) list \<Rightarrow> (string \<times> 'v) list \<Rightarrow> string list" where
  "overwrittenKeys cur nxt = filter (\<lambda>k. k \<in> fst ` set cur) (map fst nxt)"

text \<open>The elements of a list in order of first occurrence (\<^verbatim>\<open>[...new Set(xs)]\<close>).\<close>

fun dedupe :: "'a list \<Rightarrow> 'a list" where
  "dedupe [] = []"
| "dedupe (x # xs) = x # filter (\<lambda>y. y \<noteq> x) (dedupe xs)"

text \<open>
  \<^verbatim>\<open>TexTemplateImports\<close> (the source's field \<^verbatim>\<open>imports\<close> is \<open>texImports\<close> here),
  \<^verbatim>\<open>PreambleData\<close> and \<^verbatim>\<open>LatexResult\<close> (its \<^verbatim>\<open>value\<close> is \<open>texValue\<close>). A \<^verbatim>\<open>LatexResult\<close>
  is passed where a \<^verbatim>\<open>TexTemplateImports\<close> is expected, so it extends that record;
  \<open>renderedTex\<close> is the part of it without the preamble (\<^verbatim>\<open>value\<close>, \<^verbatim>\<open>imports\<close>,
  \<^verbatim>\<open>commands\<close>), the shape the test file of \<^verbatim>\<open>extractTaggedContent\<close> expects.
\<close>

record texTemplateImports =
  texImports :: "string list"
  commands :: "(string \<times> string) list"

record preambleData =
  hasProofs :: bool
  printGlossaries :: bool
  glossary :: "(string \<times> string) list"
  abbreviations :: "(string \<times> string) list"

record renderedTex = texTemplateImports +
  texValue :: string

record latexResult = renderedTex +
  preamble :: preambleData

text \<open>
  Modelled from the spec: \<^verbatim>\<open>mergeTexTemplateImports\<close> of the \<^verbatim>\<open>jtex\<close> package is not among
  the sources; only its calls \<^verbatim>\<open>mergeTexTemplateImports(collectedImports, item)\<close> are. The
  spec (4.3 and the data model): imports are concatenated, then deduplicated by first
  occurrence; the macro mapping is united by key, the later value overwriting the earlier
  one, and the diagnostic callback is invoked once for every overwritten key. The first
  component is the merged value, the second lists the keys the callback was invoked for,
  in order.
\<close>

definition mergeTexTemplateImports ::
  "'a texTemplateImports_scheme \<Rightarrow> 'b texTemplateImports_scheme
     \<Rightarrow> texTemplateImports \<times> string list"
where
  "mergeTexTemplateImports current nxt =
     (\<lparr>texImports = dedupe (texImports current @ texImports nxt),
       commands = mergeRecord (commands current) (commands nxt)\<rparr>,
      overwrittenKeys (commands current) (commands nxt))"

text \<open>
  Modelled from the spec: \<^verbatim>\<open>mergePreambles\<close> of the \<^verbatim>\<open>myst-to-tex\<close> package is not among the
  sources; only its call \<^verbatim>\<open>mergePreambles(preambleData, result.preamble, warningLogFn)\<close> is.
  The spec (4.3 and the data model): the two booleans are combined by logical OR; the
  \<^verbatim>\<open>glossary\<close> and \<^verbatim>\<open>abbreviations\<close> mappings are united by key, the later value overwriting
  the earlier one, and the diagnostic callback is invoked once for every overwritten key.
  The second component lists the keys the callback was invoked for, in order.
\<close>

definition mergePreambles :: "preambleData \<Rightarrow> preambleData \<Rightarrow> preambleData \<times> string list" where
  "mergePreambles current nxt =
     (\<lparr>hasProofs = (hasProofs current \<or> hasProofs nxt),
       printGlossaries = (printGlossaries current \<or> printGlossaries nxt),
       glossary = mergeRecord (glossary current) (glossary nxt),
       abbreviations = mergeRecord (abbreviations current) (abbreviations nxt)\<rparr>,
      overwrittenKeys (glossary current) (glossary nxt) @
      overwrittenKeys (abbreviations current) (abbreviations nxt))"

section \<open>Template Part Extractor: extraction by tag\<close>

record tagDefinition =
  tag_id :: string
  required :: "bool option"
  max_chars :: "nat option"
  max_words :: "nat option"

fun carriesTag :: "string \<Rightarrow> node \<Rightarrow> bool" where
  "carriesTag t (Leaf ty v) = False"
| "carriesTag t (Parent ty tags cs) = (ty = ''block'' \<and> t \<in> set tags)"

fun taggedBlocks :: "string \<Rightarrow> node \<Rightarrow> node list" where
  "taggedBlocks t (Leaf ty v) = []"
| "taggedBlocks t (Parent ty tags cs) =
     (if carriesTag t (Parent ty tags cs) then [Parent ty tags cs] else []) @
     concat (map (taggedBlocks t) cs)"

fun emptyTagged :: "string \<Rightarrow> node \<Rightarrow> node" where
  "emptyTagged t (Leaf ty v) = Leaf ty v"
| "emptyTagged t (Parent ty tags cs) =
     (if carriesTag t (Parent ty tags cs) then Parent ty tags []
      else Parent ty tags (map (emptyTagged t) cs))"

text \<open>
  Modelled from the spec: \<^verbatim>\<open>extractTaggedContent\<close> is not among the sources; only its test
  file is. The spec (4.2, extraction by tag): scan for block-level nodes carrying the tag;
  concatenate the text of all matches in document order, joined by a blank line; remove
  the matched content from the tree in place; return the concatenation with merged
  side-data; with no match the result is \<^verbatim>\<open>undefined\<close> and the tree is not changed; the
  configured \<^verbatim>\<open>max_chars\<close> and \<^verbatim>\<open>max_words\<close> are accepted and not enforced. \<open>render\<close> is the
  external renderer applied to the content of one matched block. The result is the
  returned value paired with the tree after the call.
\<close>

definition extractTaggedContent ::
  "(node list \<Rightarrow> pageFrontmatter \<Rightarrow> latexResult) \<Rightarrow> node \<Rightarrow> tagDefinition \<Rightarrow> pageFrontmatter
     \<Rightarrow> renderedTex option \<times> node"
where
  "extractTaggedContent render mdast tagDefinition frontmatter =
     (let blocks = taggedBlocks (tag_id tagDefinition) mdast
      in if blocks = [] then (None, mdast)
         else
           let fragments = map (\<lambda>b. render (nodeChildren b) frontmatter) blocks;
               sideData = foldl (\<lambda>c fragment. fst (mergeTexTemplateImports c fragment))
                                \<lparr>texImports = [], commands = []\<rparr> fragments
           in (Some \<lparr>texImports = texImports sideData, commands = commands sideData,
                     texValue = joinWith [CHR 0x0A, CHR 0x0A] (map texValue fragments)\<rparr>,
               emptyTagged (tag_id tagDefinition) mdast))"

section \<open>Compilation Orchestrator\<close>

subsection \<open>Session state and collaborators\<close>

text \<open>
  The effects of a job on the session are kept in a record that every operation takes
  and returns: the files written by \<^verbatim>\<open>writeFileToFolder\<close>, the diagnostics added by
  \<^verbatim>\<open>addWarningForFile\<close>, the outputs removed by \<^verbatim>\<open>cleanOutput\<close>, the renderer invocations
  and the calls of \<^verbatim>\<open>renderTemplate\<close>, each in the order in which it happened.
\<close>

record fileWarning =
  warnedFile :: string
  message :: string
  severity :: string

record renderCall =
  renderedTree :: node
  withTemplate :: bool
  glossaryPrinting :: bool

datatype partValue = PartString string | PartStrings "string list"

record renderTemplateCall =
  contentOrPath :: string
  templateOutputPath :: string
  templateFrontmatter :: pageFrontmatter
  templateParts :: "string \<rightharpoonup> partValue"
  bibliography :: "string option"
  templateSourceFile :: string
  templateImports :: texTemplateImports
  templatePreamble :: string
  templateForce :: bool
  templateFilesPath :: string

record session =
  written :: "(string \<times> string) list"
  warnings :: "fileWarning list"
  cleaned :: "string list"
  renders :: "renderCall list"
  templateCalls :: "renderTemplateCall list"

definition writeFileToFolder :: "session \<Rightarrow> string \<Rightarrow> string \<Rightarrow> session" where
  "writeFileToFolder s file content = s\<lparr>written := written s @ [(file, content)]\<rparr>"

definition addWarningForFile :: "session \<Rightarrow> string \<Rightarrow> string \<Rightarrow> string \<Rightarrow> session" where
  "addWarningForFile s file msg k =
     s\<lparr>warnings := warnings s @ [\<lparr>warnedFile = file, message = msg, severity = k\<rparr>]\<rparr>"

definition cleanOutput :: "session \<Rightarrow> string \<Rightarrow> session" where
  "cleanOutput s out = s\<lparr>cleaned := cleaned s @ [out]\<rparr>"

record templatePartDefinition =
  part_id :: string
  as_list :: bool

record templateYml =
  template_parts :: "templatePartDefinition list option"
  packages :: "string list"

record articleContent =
  mdast :: node
  frontmatter :: pageFrontmatter
  references :: references
  slug :: "string option"

text \<open>
  The collaborators that are not among the sources: \<^verbatim>\<open>getFileContent\<close>, \<^verbatim>\<open>finalizeMdast\<close>
  (it changes the tree in place; here it returns the finalized tree), \<^verbatim>\<open>extractPart\<close> of
  \<^verbatim>\<open>myst-common\<close> (\<open>None\<close> for \<^verbatim>\<open>undefined\<close>, else the part and the tree left after the
  extraction), the \<^verbatim>\<open>mystToTex\<close> renderer (tree, references, front matter, template
  description when there is one, \<^verbatim>\<open>printGlossaries\<close>), \<^verbatim>\<open>writeBibtexFromCitationRenderers\<close>,
  the validated template description of \<^verbatim>\<open>MystTemplate\<close>, the project configuration of the
  store, and \<^verbatim>\<open>generatePreamble\<close> (preamble and suffix).
\<close>

record collaborators =
  getFileContent :: "string list \<Rightarrow> articleContent list"
  finalizeMdast :: "node \<Rightarrow> pageFrontmatter \<Rightarrow> string \<Rightarrow> node"
  extractPart :: "node \<Rightarrow> string \<Rightarrow> (node \<times> node) option"
  mystToTex :: "node \<Rightarrow> references \<Rightarrow> pageFrontmatter \<Rightarrow> templateYml option \<Rightarrow> bool \<Rightarrow> latexResult"
  writeBibtexFromCitationRenderers :: "string \<Rightarrow> articleContent list \<Rightarrow> bool"
  getValidatedTemplateYml :: "templateRef \<Rightarrow> templateYml"
  selectLocalProjectConfig :: "string \<Rightarrow> pageFrontmatter option"
  generatePreamble :: "preambleData \<Rightarrow> string \<times> string"

record exportResults =
  tempFolders :: "string list"
  hasGlossaries :: "bool option"

definition DEFAULT_BIB_FILENAME :: string where
  "DEFAULT_BIB_FILENAME = ''main.bib''"

subsection \<open>More of \<open>node:path\<close>\<close>

definition posix_dirname :: "string \<Rightarrow> string" where
  "posix_dirname p =
     (if p = [] then ''.''
      else
        let hasRoot = isAbsolute p;
            trimmed = rev (dropWhile isSlash (rev (tl p)));
            before = dropWhile (\<lambda>c. \<not> isSlash c) (rev trimmed)
        in (case before of
              [] \<Rightarrow> if hasRoot then ''/'' else ''.''
            | _ # rest \<Rightarrow> if hasRoot \<and> rest = [] then ''//'' else hd p # rev rest))"

text \<open>\<^verbatim>\<open>path.format({ dir, ext, base })\<close> with no \<^verbatim>\<open>root\<close>.\<close>

definition posix_format :: "string \<Rightarrow> string \<Rightarrow> string" where
  "posix_format d b = (if d = [] then b else d @ ''/'' @ b)"

subsection \<open>Rendering\<close>

text \<open>
  \<^verbatim>\<open>mdastToTex\<close> runs the renderer with the options built from the front matter and the
  template description and returns its result; the invocation is recorded.
\<close>

definition mdastToTex ::
  "collaborators \<Rightarrow> session \<Rightarrow> node \<Rightarrow> references \<Rightarrow> pageFrontmatter \<Rightarrow> templateYml option \<Rightarrow> bool
     \<Rightarrow> latexResult \<times> session"
where
  "mdastToTex env s tree refs fm yml printGloss =
     (mystToTex env tree refs fm yml printGloss,
      s\<lparr>renders := renders s @
           [\<lparr>renderedTree = tree, withTemplate = (yml \<noteq> None), glossaryPrinting = printGloss\<rparr>]\<rparr>)"

text \<open>\<^verbatim>\<open>trees.map((tree) => mdastToTex(..., tree, ..., false))\<close>, left to right.\<close>

fun mdastToTexEach ::
  "collaborators \<Rightarrow> session \<Rightarrow> node list \<Rightarrow> references \<Rightarrow> pageFrontmatter \<Rightarrow> templateYml option
     \<Rightarrow> latexResult list \<times> session"
where
  "mdastToTexEach env s [] refs fm yml = ([], s)"
| "mdastToTexEach env s (tree # trees) refs fm yml =
     (let (r, s1) = mdastToTex env s tree refs fm yml False;
          (rs, s2) = mdastToTexEach env s1 trees refs fm yml
      in (r # rs, s2))"

subsection \<open>\<open>extractTexPart\<close>\<close>

datatype texPart = TexPart latexResult | TexParts "latexResult list"

text \<open>
  \<^verbatim>\<open>part.children.length === 1 && part.children[0]?.children?.length === 1 &&
  part.children[0].children[0].type === 'list'\<close>
\<close>

definition isSingleList :: "node \<Rightarrow> bool" where
  "isSingleList part =
     (case nodeChildren part of
        [c] \<Rightarrow> (case childrenOpt c of Some [g] \<Rightarrow> nodeType g = ''list'' | _ \<Rightarrow> False)
      | _ \<Rightarrow> False)"

text \<open>
  The result is the value returned (\<open>None\<close> for \<^verbatim>\<open>undefined\<close>), the tree as \<^verbatim>\<open>extractPart\<close>
  left it, and the session.
\<close>

definition extractTexPart ::
  "collaborators \<Rightarrow> session \<Rightarrow> node \<Rightarrow> references \<Rightarrow> templatePartDefinition \<Rightarrow> pageFrontmatter
     \<Rightarrow> templateYml \<Rightarrow> texPart option \<times> node \<times> session"
where
  "extractTexPart env s tree refs partDefinition fm yml =
     (case extractPart env tree (part_id partDefinition) of
        None \<Rightarrow> (None, tree, s)
      | Some (part, tree') \<Rightarrow>
          if \<not> as_list partDefinition then
            let (r, s1) = mdastToTex env s part refs fm (Some yml) False
            in (Some (TexPart r), tree', s1)
          else if isSingleList part then
            let items = selectAll ''listItem'' part;
                (rs, s1) = mdastToTexEach env s
                             (map (\<lambda>item. Parent ''root'' [] (nodeChildren item)) items)
                             refs fm (Some yml)
            in (Some (TexParts rs), tree', s1)
          else
            let (rs, s1) = mdastToTexEach env s
                             (map (\<lambda>block. Parent ''root'' [] [block]) (nodeChildren part))
                             refs fm (Some yml)
            in (Some (TexParts rs), tree', s1))"

definition hasGlossary :: "node \<Rightarrow> bool" where
  "hasGlossary tree = (select ''glossary'' tree \<noteq> None)"

subsection \<open>Templated and raw jobs\<close>

text \<open>
  The variables a templated job accumulates over its articles: \<^verbatim>\<open>parts\<close>,
  \<^verbatim>\<open>collectedImports\<close>, \<^verbatim>\<open>preambleData\<close> (\<open>preambleAcc\<close>) and \<^verbatim>\<open>hasGlossaries\<close>
  (\<open>glossariesSeen\<close>). \<^verbatim>\<open>parts\<close> is a \<^verbatim>\<open>Record<string, string | string[]>\<close>.
\<close>

record jobState =
  parts :: "string \<rightharpoonup> partValue"
  collectedImports :: texTemplateImports
  preambleAcc :: preambleData
  glossariesSeen :: bool

definition initialJobState :: jobState where
  "initialJobState =
     \<lparr>parts = Map.empty,
      collectedImports = \<lparr>texImports = [], commands = []\<rparr>,
      preambleAcc = \<lparr>hasProofs = False, printGlossaries = False, glossary = [],
                     abbreviations = []\<rparr>,
      glossariesSeen = False\<rparr>"

text \<open>
  Truthiness of \<^verbatim>\<open>parts[def.id]\<close>: \<^verbatim>\<open>undefined\<close> and the empty string are falsy, every
  array is truthy.
\<close>

fun truthyPart :: "partValue option \<Rightarrow> bool" where
  "truthyPart None = False"
| "truthyPart (Some (PartString v)) = (v \<noteq> [])"
| "truthyPart (Some (PartStrings vs)) = True"

definition multipleValuesMessage :: "string \<Rightarrow> string \<Rightarrow> string" where
  "multipleValuesMessage ident article =
     ''multiple values for part '' @ [CHR 0x27] @ ident @ [CHR 0x27] @
     '' found; ignoring value from '' @ article"

text \<open>
  The body of \<^verbatim>\<open>partDefinitions.forEach\<close> for one part definition: the accumulated state,
  the article's tree and the session go in and come out. The calls of
  \<^verbatim>\<open>mergeTexTemplateImports\<close> pass two arguments and use the merged value.
\<close>

definition collectPart ::
  "collaborators \<Rightarrow> string \<Rightarrow> string \<Rightarrow> references \<Rightarrow> pageFrontmatter \<Rightarrow> templateYml
     \<Rightarrow> jobState \<times> node \<times> session \<Rightarrow> templatePartDefinition \<Rightarrow> jobState \<times> node \<times> session"
where
  "collectPart env file article refs fm yml st partDef =
     (case st of (acc, tree, s) \<Rightarrow>
        (case extractTexPart env s tree refs partDef fm yml of (part, tree1, s1) \<Rightarrow>
           if part \<noteq> None \<and> truthyPart (parts acc (part_id partDef)) then
             (acc, tree1,
              addWarningForFile s1 file (multipleValuesMessage (part_id partDef) article) ''error'')
           else
             (case part of
                Some (TexParts items) \<Rightarrow>
                  (acc\<lparr>collectedImports :=
                         foldl (\<lambda>c item. fst (mergeTexTemplateImports c item)) (collectedImports acc) items,
                       parts := (parts acc)(part_id partDef \<mapsto> PartStrings (map texValue items))\<rparr>,
                   tree1, s1)
              | Some (TexPart r) \<Rightarrow>
                  (acc\<lparr>collectedImports := fst (mergeTexTemplateImports (collectedImports acc) r),
                       parts := (parts acc)(part_id partDef \<mapsto> PartString (texValue r))\<rparr>,
                   tree1, s1)
              | None \<Rightarrow> (acc, tree1, s1))))"

text \<open>\<^verbatim>\<open>articles[ind]\<close> inside a template literal.\<close>

definition articleAt :: "string list \<Rightarrow> nat \<Rightarrow> string" where
  "articleAt as ind = (if ind < length as then as ! ind else ''undefined'')"

text \<open>
  One article of a templated job, the body of \<^verbatim>\<open>content.map(async ...)\<close>: what it does to
  the accumulated state once its \<^verbatim>\<open>finalizeMdast\<close> has finished. The order in which the
  articles get there is that of the list the step is folded over.
\<close>

definition templatedArticle ::
  "collaborators \<Rightarrow> string \<Rightarrow> templateYml \<Rightarrow> templatePartDefinition list \<Rightarrow> string list
     \<Rightarrow> latexResult list \<times> jobState \<times> session \<Rightarrow> nat \<times> articleContent
     \<Rightarrow> latexResult list \<times> jobState \<times> session"
where
  "templatedArticle env file yml partDefinitions as st ic =
     (case st of (results, acc, s) \<Rightarrow>
      case ic of (ind, c) \<Rightarrow>
        let article = articleAt as ind;
            tree0 = finalizeMdast env (mdast c) (frontmatter c) article
        in (case foldl (collectPart env file article (references c) (frontmatter c) yml)
                       (acc, tree0, s) partDefinitions of
              (acc1, tree1, s1) \<Rightarrow>
                (case mdastToTex env s1 tree1 (references c) (frontmatter c) (Some yml) True of
                   (result, s2) \<Rightarrow>
                     (case mergePreambles (preambleAcc acc1) (preamble result) of
                        (merged, overwritten) \<Rightarrow>
                          (results @ [result],
                           acc1\<lparr>collectedImports := fst (mergeTexTemplateImports (collectedImports acc1) result),
                                preambleAcc := merged,
                                glossariesSeen := (glossariesSeen acc1 \<or> hasGlossary tree1)\<rparr>,
                           foldl (\<lambda>s' k. addWarningForFile s' file k ''warn'') s2 overwritten)))))"

text \<open>
  The section heading put in front of an article of a multi-article job:
  \<^verbatim>\<open>title && !content_includes_title\<close>.
\<close>

definition sectionHeading :: "pageFrontmatter \<Rightarrow> string" where
  "sectionHeading fm =
     (if truthy (title fm) \<and> content_includes_title fm \<noteq> Some True
      then [CHR 0x5C] @ ''section{'' @ the (title fm) @ ''}'' @ [CHR 0x0A, CHR 0x0A]
      else [])"

definition includeLine :: "string \<Rightarrow> string" where
  "includeLine b = [CHR 0x5C] @ ''include{'' @ b @ ''}''"

text \<open>\<^verbatim>\<open>content[ind]?.slug ?? ind\<close>\<close>

definition slugOrIndex :: "articleContent \<Rightarrow> nat \<Rightarrow> string" where
  "slugOrIndex c ind = (case slug c of None \<Rightarrow> showNat ind | Some sl \<Rightarrow> sl)"

definition articlesOf :: "(string, 'z) export_scheme \<Rightarrow> string list" where
  "articlesOf exp = (case articles exp of None \<Rightarrow> [] | Some as \<Rightarrow> as)"

definition localArticleToTexTemplated ::
  "collaborators \<Rightarrow> session \<Rightarrow> string \<Rightarrow> string export \<Rightarrow> string option \<Rightarrow> bool
     \<Rightarrow> exportResults \<times> session"
where
  "localArticleToTexTemplated env s file templateOptions projectPath forced =
     (let out = outputPath templateOptions;
          as = articlesOf templateOptions;
          files = posix_join [posix_dirname out, ''files''];
          content = getFileContent env as;
          bibtexWritten = writeBibtexFromCitationRenderers env
                            (posix_join [posix_dirname out, DEFAULT_BIB_FILENAME]) content;
          yml = getValidatedTemplateYml env (template templateOptions);
          partDefinitions = (case template_parts yml of None \<Rightarrow> [] | Some ps \<Rightarrow> ps)
      in (case foldl (templatedArticle env file yml partDefinitions as)
                     ([], initialJobState, s) (enumerate 0 content) of
            (results, acc, s1) \<Rightarrow>
              let (fm, texContent, s2) =
                    (if length results = 1 then
                       (frontmatter (content ! 0), texValue (results ! 0), s1)
                     else
                       let p = posix_parse out;
                           config = (case selectLocalProjectConfig env
                                            (case projectPath of None \<Rightarrow> ''.'' | Some pp \<Rightarrow> pp) of
                                       None \<Rightarrow> \<lparr>title = None, content_includes_title = None\<rparr>
                                     | Some cfg \<Rightarrow> cfg);
                           includeFilenames =
                             map (\<lambda>(ind, result, c). name p @ ''-'' @ slugOrIndex c ind)
                                 (enumerate 0 (zip results content));
                           s' = foldl (\<lambda>s' (ind, result, c).
                                         writeFileToFolder s'
                                           (posix_format (dir p)
                                              (name p @ ''-'' @ slugOrIndex c ind @ ext p))
                                           (sectionHeading (frontmatter c) @ texValue result))
                                      s1 (enumerate 0 (zip results content))
                       in (config, joinWith [CHR 0x0A] (map includeLine includeFilenames), s'));
                  (preambleText, suffixText) = generatePreamble env (preambleAcc acc)
              in (\<lparr>tempFolders = [], hasGlossaries = Some (glossariesSeen acc)\<rparr>,
                  s2\<lparr>templateCalls := templateCalls s2 @
                       [\<lparr>contentOrPath = texContent @ suffixText,
                         templateOutputPath = out,
                         templateFrontmatter = fm,
                         templateParts = parts acc,
                         bibliography = (if bibtexWritten then Some DEFAULT_BIB_FILENAME else None),
                         templateSourceFile = file,
                         templateImports = collectedImports acc,
                         templatePreamble = preambleText,
                         templateForce = forced,
                         templateFilesPath = files\<rparr>]\<rparr>)))"

text \<open>One article of a raw job: finalize, then render without template and without glossaries.\<close>

definition rawArticle ::
  "collaborators \<Rightarrow> string list \<Rightarrow> latexResult list \<times> session \<Rightarrow> nat \<times> articleContent
     \<Rightarrow> latexResult list \<times> session"
where
  "rawArticle env as st ic =
     (case st of (results, s) \<Rightarrow>
      case ic of (ind, c) \<Rightarrow>
        let article = articleAt as ind;
            tree0 = finalizeMdast env (mdast c) (frontmatter c) article
        in (case mdastToTex env s tree0 (references c) (frontmatter c) None False of
              (result, s1) \<Rightarrow> (results @ [result], s1)))"

definition localArticleToTexRaw ::
  "collaborators \<Rightarrow> session \<Rightarrow> string export \<Rightarrow> string option \<Rightarrow> exportResults \<times> session"
where
  "localArticleToTexRaw env s templateOptions projectPath =
     (let out = outputPath templateOptions;
          as = articlesOf templateOptions;
          content = getFileContent env as
      in (case foldl (rawArticle env as) ([], s) (enumerate 0 content) of
            (results, s1) \<Rightarrow>
              (\<lparr>tempFolders = [], hasGlossaries = None\<rparr>,
               if length results = 1 then writeFileToFolder s1 out (texValue (results ! 0))
               else
                 let p = posix_parse out;
                     includeFileBases =
                       map (\<lambda>(ind, result, c). name p @ ''-'' @ slugOrIndex c ind @ ext p)
                           (enumerate 0 (zip results content));
                     s' = foldl (\<lambda>s' (ind, result, c).
                                   writeFileToFolder s'
                                     (posix_format (dir p)
                                        (name p @ ''-'' @ slugOrIndex c ind @ ext p))
                                     (sectionHeading (frontmatter c) @ texValue result))
                                s1 (enumerate 0 (zip results content))
                 in writeFileToFolder s' out
                      (joinWith [CHR 0x0A] (map includeLine includeFileBases)))))"

text \<open>
  \<^verbatim>\<open>runTexExport\<close>: a job whose template is \<^verbatim>\<open>null\<close> is a raw job, any other job is
  templated.
\<close>

definition runTexExport ::
  "collaborators \<Rightarrow> session \<Rightarrow> string \<Rightarrow> string export \<Rightarrow> string option \<Rightarrow> bool
     \<Rightarrow> exportResults \<times> session"
where
  "runTexExport env s file exportOptions projectPath clean =
     (let s0 = (if clean then cleanOutput s (outputPath exportOptions) else s)
      in if template exportOptions = Disabled
         then localArticleToTexRaw env s0 exportOptions projectPath
         else localArticleToTexTemplated env s0 file exportOptions projectPath clean)"

text \<open>
  The loop of a templated job for any order in which the articles finish
  \<^verbatim>\<open>finalizeMdast\<close>: \<open>order\<close> lists the article indices in that order. What follows the
  \<^verbatim>\<open>await\<close> runs without interruption, one article after the other in completion order,
  and \<^verbatim>\<open>Promise.all\<close> returns the results in article order. \<open>localArticleToTexTemplated\<close>
  above takes the articles in declared order, the order \<open>[0..<length content]\<close>.
\<close>

definition templatedLoop ::
  "collaborators \<Rightarrow> string \<Rightarrow> templateYml \<Rightarrow> templatePartDefinition list \<Rightarrow> string list
     \<Rightarrow> articleContent list \<Rightarrow> nat list \<Rightarrow> session \<Rightarrow> latexResult list \<times> jobState \<times> session"
where
  "templatedLoop env file yml partDefinitions as content order s =
     (case foldl (templatedArticle env file yml partDefinitions as) ([], initialJobState, s)
                 (map (\<lambda>i. (i, content ! i)) order) of
        (rs, acc, s1) \<Rightarrow> (map snd (sort_key fst (zip order rs)), acc, s1))"

section \<open>Export Job Resolver: from declarations to jobs\<close>

text \<open>
  \<^verbatim>\<open>ExportOptions\<close>, the overrides of one invocation. The source's \<^verbatim>\<open>template\<close> and \<^verbatim>\<open>zip\<close>
  are \<open>template_opt\<close> and \<open>zip_opt\<close> here.
\<close>

record exportOptions =
  filename :: "string option"
  template_opt :: "string option"
  disableTemplate :: bool
  force :: bool
  zip_opt :: bool

text \<open>
  What the resolver reads from outside the sources: the store's selectors, the front
  matter reader, \<^verbatim>\<open>getExportListFromRawFrontmatter\<close>, \<^verbatim>\<open>fs.existsSync\<close>, the working
  directory \<^verbatim>\<open>path.resolve\<close> starts from, and the default folder and file names of
  \<^verbatim>\<open>defaultNames.js\<close>. \<open>'fm\<close> is the type of raw front matter.
\<close>

record 'fm resolverEnv =
  selectLocalConfigFile :: "string \<Rightarrow> string option"
  selectRawProjectConfig :: "string \<Rightarrow> 'fm option"
  getRawFrontmatterFromFile :: "string \<Rightarrow> string option \<Rightarrow> 'fm option"
  getExportListFromRawFrontmatter ::
    "exportFormats list \<Rightarrow> 'fm option \<Rightarrow> string \<Rightarrow> string option export list"
  existsSync :: "string \<Rightarrow> bool"
  cwd :: string
  getDefaultExportFolder :: "string \<Rightarrow> string option \<Rightarrow> string option \<Rightarrow> string"
  getDefaultExportFilename :: "string \<Rightarrow> string option \<Rightarrow> string"

definition SOURCE_EXTENSIONS :: "string list" where
  "SOURCE_EXTENSIONS = [''.ipynb'', ''.md'', ''.tex'']"

definition posix_extname :: "string \<Rightarrow> string" where
  "posix_extname p = ext (posix_parse p)"

text \<open>
  \<^verbatim>\<open>path.resolve\<close>: the arguments are taken from the right until an absolute one is found,
  the working directory standing in front of them; empty arguments are skipped.
\<close>

fun resolveArgs :: "string list \<Rightarrow> string \<Rightarrow> string \<times> bool" where
  "resolveArgs [] acc = (acc, False)"
| "resolveArgs (a # as) acc =
     (if a = [] then resolveArgs as acc
      else if isAbsolute a then (a @ ''/'' @ acc, True)
      else resolveArgs as (a @ ''/'' @ acc))"

definition posix_resolve :: "string \<Rightarrow> string list \<Rightarrow> string" where
  "posix_resolve wd args =
     (case resolveArgs (rev (wd # args)) [] of
        (p, resolvedAbsolute) \<Rightarrow>
          let q = normalizeString p (\<not> resolvedAbsolute)
          in if resolvedAbsolute then ''/'' @ q else if q = [] then ''.'' else q)"

definition endsWith :: "string \<Rightarrow> string \<Rightarrow> bool" where
  "endsWith s suf = (length suf \<le> length s \<and> drop (length s - length suf) s = suf)"

definition quoted :: "string \<Rightarrow> string" where
  "quoted s = [CHR 0x27] @ s @ [CHR 0x27]"

text \<open>
  \<^verbatim>\<open>logMessagesFromVFile\<close>: the messages collected in the \<^verbatim>\<open>VFile\<close> of the source file go
  to the session's diagnostics.
\<close>

definition logMessagesFromVFile :: "session \<Rightarrow> string \<Rightarrow> string list \<Rightarrow> session" where
  "logMessagesFromVFile s file msgs = foldl (\<lambda>s' m. addWarningForFile s' file m ''error'') s msgs"

subsection \<open>\<open>prepareExportOptions\<close>\<close>

text \<open>
  The first pass over the entries (\<^verbatim>\<open>exportOptions.forEach\<close>): \<^verbatim>\<open>articles\<close> defaults to the
  source file, and \<^verbatim>\<open>sub_articles\<close> that do not exist are reported and dropped. Each
  function returns the entry and the messages it adds to the \<^verbatim>\<open>VFile\<close>.
\<close>

definition resolveExisting ::
  "'fm resolverEnv \<Rightarrow> string \<Rightarrow> string \<Rightarrow> string \<Rightarrow> string option \<times> string list"
where
  "resolveExisting env what sourceFile file =
     (let resolvedFile = posix_resolve (cwd env) [posix_dirname sourceFile, file]
      in if \<not> existsSync env resolvedFile
         then (None, [''Invalid export '' @ what @ '' '' @ quoted file @ '' in source: '' @ sourceFile])
         else (Some resolvedFile, []))"

definition defaultArticles ::
  "'fm resolverEnv \<Rightarrow> string \<Rightarrow> string option export \<Rightarrow> string option export \<times> string list"
where
  "defaultArticles env sourceFile exp =
     (let exp1 = (if articles exp = None \<and> posix_extname sourceFile \<in> set SOURCE_EXTENSIONS
                  then exp\<lparr>articles := Some [posix_resolve (cwd env) [sourceFile]]\<rparr> else exp)
      in (case sub_articles exp1 of
            None \<Rightarrow> (exp1, [])
          | Some subs \<Rightarrow>
              let checked = map (resolveExisting env ''sub_article'' sourceFile) subs
              in (exp1\<lparr>sub_articles := Some (filter (\<lambda>f. f \<noteq> []) (definedOnly (map fst checked)))\<rparr>,
                  concat (map snd checked))))"

text \<open>
  The second pass (\<^verbatim>\<open>.map(...).filter((exp) => !!exp)\<close>): an entry without articles is kept
  only for the MECA format, and is reported unless \<^verbatim>\<open>force\<close> is set; the articles of the
  other entries are resolved, the missing ones reported and dropped.
\<close>

definition checkArticles ::
  "'fm resolverEnv \<Rightarrow> string \<Rightarrow> exportOptions \<Rightarrow> string option export
     \<Rightarrow> string option export option \<times> string list"
where
  "checkArticles env sourceFile opts exp =
     (case articles exp of
        None \<Rightarrow>
          if format exp = meca then (Some exp, [])
          else (None, if \<not> force opts
                      then [''Invalid export - no '' @ quoted ''article'' @ '' in source: '' @ sourceFile]
                      else [])
      | Some [] \<Rightarrow>
          if format exp = meca then (Some exp, [])
          else (None, if \<not> force opts
                      then [''Invalid export - no '' @ quoted ''article'' @ '' in source: '' @ sourceFile]
                      else [])
      | Some as \<Rightarrow>
          let checked = map (resolveExisting env ''article'' sourceFile) as
          in (Some (exp\<lparr>articles := Some (filter (\<lambda>f. f \<noteq> []) (definedOnly (map fst checked)))\<rparr>),
              concat (map snd checked)))"

definition prepareExportOptions ::
  "'fm resolverEnv \<Rightarrow> session \<Rightarrow> string \<Rightarrow> exportFormats list \<Rightarrow> string option \<Rightarrow> exportOptions
     \<Rightarrow> string option export list \<times> session"
where
  "prepareExportOptions env s sourceFile formats projectPath opts =
     (let rawFrontmatter =
            (if truthy projectPath \<and> Some sourceFile = selectLocalConfigFile env (the projectPath)
             then selectRawProjectConfig env (the projectPath)
             else getRawFrontmatterFromFile env sourceFile projectPath);
          declared = getExportListFromRawFrontmatter env formats rawFrontmatter sourceFile;
          defaulted =
            (if length declared = 0 \<and> formats \<noteq> [] \<and> force opts
             then [\<lparr>format = hd formats, outputPath = None, template = Unspecified,
                    articles = None, sub_articles = None\<rparr>]
             else declared);
          single =
            (if truthy (filename opts) \<or> disableTemplate opts \<or> truthy (template_opt opts)
             then take 1 defaulted else defaulted);
          first = map (defaultArticles env sourceFile) single;
          second = map (checkArticles env sourceFile opts) (map fst first)
      in (definedOnly (map fst second),
          logMessagesFromVFile s sourceFile (concat (map snd first) @ concat (map snd second))))"

subsection \<open>\<open>getOutput\<close> and \<open>collectTexExportOptions\<close>\<close>

definition getOutput ::
  "'fm resolverEnv \<Rightarrow> string \<Rightarrow> string option export \<Rightarrow> string option \<Rightarrow> string
     \<Rightarrow> exportFormats list \<Rightarrow> string option \<Rightarrow> string option \<times> string list"
where
  "getOutput env sourceFile exp fname extension formats projectPath =
     (let out0 =
            (if truthy fname then the fname
             else if truthy (outputPath exp)
             then posix_resolve (cwd env) [posix_dirname sourceFile, the (outputPath exp)]
             else getDefaultExportFolder env sourceFile projectPath
                    (if tex \<in> set formats then Some ''tex''
                     else if typst \<in> set formats then Some ''typ'' else None));
          out1 =
            (if posix_extname out0 = [] then
               posix_join [out0,
                 getDefaultExportFilename env
                   (case articles exp of Some (a # _) \<Rightarrow> a | _ \<Rightarrow> sourceFile) projectPath
                 @ ''.'' @ extension]
             else out0)
      in if \<not> endsWith out1 (''.'' @ extension)
         then (None, [''The filename must end with '' @ quoted (''.'' @ extension) @ '': \"'' @ out1 @ ''\"''])
         else (Some out1, []))"

datatype configError = ConflictingTexOptions

definition resolveTexExport ::
  "'fm resolverEnv \<Rightarrow> string \<Rightarrow> string \<Rightarrow> exportFormats list \<Rightarrow> string option \<Rightarrow> exportOptions
     \<Rightarrow> string option export \<Rightarrow> string export option \<times> string list"
where
  "resolveTexExport env sourceFile extension formats projectPath opts exp =
     (let rawOutput = (if truthy (filename opts) then the (filename opts)
                       else if truthy (outputPath exp) then the (outputPath exp) else []);
          useZip = ((extension = ''tex'' \<or> extension = ''typ'') \<and>
                    (zip_opt opts \<or> posix_extname rawOutput = ''.zip''));
          expExtension = (if useZip then ''zip'' else extension)
      in (case getOutput env sourceFile exp (filename opts) expExtension formats projectPath of
            (None, msgs) \<Rightarrow> (None, msgs)
          | (Some out, msgs) \<Rightarrow>
              (Some \<lparr>format = format exp, outputPath = out,
                     template =
                       (if disableTemplate opts then Disabled
                        else if truthy (template_opt opts) then Template (the (template_opt opts))
                        else (case template exp of
                                Template t \<Rightarrow>
                                  if t = [] then Template t
                                  else
                                    let resolvedTemplatePath =
                                          posix_resolve (cwd env) [posix_dirname sourceFile, t]
                                    in if existsSync env resolvedTemplatePath
                                       then Template resolvedTemplatePath else Template t
                              | other \<Rightarrow> other)),
                     articles = articles exp, sub_articles = sub_articles exp\<rparr>,
               msgs)))"

text \<open>
  The result is the thrown error or the resolved jobs, and the session with the
  diagnostics of the invocation.
\<close>

definition collectTexExportOptions ::
  "'fm resolverEnv \<Rightarrow> session \<Rightarrow> string \<Rightarrow> string \<Rightarrow> exportFormats list \<Rightarrow> string option
     \<Rightarrow> exportOptions \<Rightarrow> (configError + string export list) \<times> session"
where
  "collectTexExportOptions env s sourceFile extension formats projectPath opts =
     (case prepareExportOptions env s sourceFile formats projectPath opts of
        (prepared, s1) \<Rightarrow>
          if disableTemplate opts \<and> truthy (template_opt opts) then (Inl ConflictingTexOptions, s1)
          else
            let resolved = map (resolveTexExport env sourceFile extension formats projectPath opts)
                               prepared
            in (Inr (filterAndMakeUnique (map fst resolved)),
                foldl (\<lambda>s' m. addWarningForFile s' sourceFile m ''error'') s1
                      (concat (map snd resolved))))"

section \<open>Concrete inputs used by the witnesses and counterexamples\<close>

definition texJob :: "string \<Rightarrow> string export" where
  "texJob out = \<lparr>format = tex, outputPath = out, template = Unspecified,
                 articles = Some [''/proj/index.md''], sub_articles = None\<rparr>"

definition server :: "int \<Rightarrow> string \<Rightarrow> string \<Rightarrow> jupyterServerListItem" where
  "server p u t = \<lparr>base_url = ''/'', hostname = ''localhost'', password = False, pid = p,
                   port = 8888, root_dir = ''/srv'', secure = False, sock = [], token = t,
                   url = u, version = ''2.0.0''\<rparr>"

definition exampleHost :: "int option \<Rightarrow> jupyterServerListItem list \<Rightarrow> host" where
  "exampleHost st servers =
     \<lparr>which_sync = (\<lambda>_. Some ''/usr/bin/python''),
      spawnSync = (\<lambda>_ _. \<lparr>status = st, stdout = ''[]''\<rparr>),
      JSON_parse = (\<lambda>_. Some servers)\<rparr>"

text \<open>A renderer for plain text: the values of the literals of a fragment, no side-data.\<close>

fun plainText :: "node \<Rightarrow> string" where
  "plainText (Leaf ty v) = (case v of None \<Rightarrow> [] | Some s \<Rightarrow> s)"
| "plainText (Parent ty tags cs) = concat (map plainText cs)"

definition emptyPreamble :: preambleData where
  "emptyPreamble = \<lparr>hasProofs = False, printGlossaries = False, glossary = [], abbreviations = []\<rparr>"

definition plainResult :: "string \<Rightarrow> latexResult" where
  "plainResult s = \<lparr>texImports = [], commands = [], texValue = s, preamble = emptyPreamble\<rparr>"

definition plainRender :: "node list \<Rightarrow> pageFrontmatter \<Rightarrow> latexResult" where
  "plainRender ns fm = plainResult (concat (map plainText ns))"

definition noFrontmatter :: pageFrontmatter where
  "noFrontmatter = \<lparr>title = None, content_includes_title = None\<rparr>"

definition block :: "string list \<Rightarrow> string \<Rightarrow> node" where
  "block tags s = Parent ''block'' tags [Leaf ''text'' (Some s)]"

text \<open>A tree whose tagged block lies below an untagged section, beside an untagged text.\<close>

definition deepTree :: node where
  "deepTree = Parent ''root'' []
     [Parent ''section'' []
        [block [''test_tag''] ''tagged content'', Leaf ''text'' (Some ''untagged content'')],
      block [''other_tag''] ''more untagged content'']"

definition testTree :: node where
  "testTree = Parent ''root'' []
     [block [''other_tag''] ''untagged content'',
      block [''test_tag''] ''tagged content'',
      block [''other_tag'', ''test_tag''] ''also tagged content'']"

text \<open>
  Collaborators for the examples. The part of a tree for an id is the root holding the
  top-level blocks tagged with the id, and the tree left is the tree without them; the
  renderer gives the plain text of a tree and, as preamble, nothing; finalization leaves
  the tree as it is; the contents of the articles are given with the environment.
\<close>

definition examplePart :: "node \<Rightarrow> string \<Rightarrow> (node \<times> node) option" where
  "examplePart tree ident =
     (case filter (carriesTag ident) (nodeChildren tree) of
        [] \<Rightarrow> None
      | bs \<Rightarrow> Some (Parent ''root'' [] bs,
                    Parent (nodeType tree) [] (filter (\<lambda>c. \<not> carriesTag ident c) (nodeChildren tree))))"

definition exampleEnv :: "articleContent list \<Rightarrow> templatePartDefinition list \<Rightarrow> collaborators" where
  "exampleEnv content defs =
     \<lparr>getFileContent = (\<lambda>_. content),
      finalizeMdast = (\<lambda>tree _ _. tree),
      extractPart = examplePart,
      mystToTex = (\<lambda>tree _ _ _ _. plainResult (plainText tree)),
      writeBibtexFromCitationRenderers = (\<lambda>_ _. False),
      getValidatedTemplateYml = (\<lambda>_. \<lparr>template_parts = Some defs, packages = []\<rparr>),
      selectLocalProjectConfig = (\<lambda>_. None),
      generatePreamble = (\<lambda>_. ([], []))\<rparr>"

definition emptySession :: session where
  "emptySession = \<lparr>written = [], warnings = [], cleaned = [], renders = [], templateCalls = []\<rparr>"

definition article :: "node list \<Rightarrow> articleContent" where
  "article blocks = \<lparr>mdast = Parent ''root'' [] blocks, frontmatter = noFrontmatter,
                     references = [], slug = None\<rparr>"

definition listItem :: "node list \<Rightarrow> node" where
  "listItem cs = Parent ''listItem'' [] cs"

definition textLeaf :: "string \<Rightarrow> node" where
  "textLeaf s = Leaf ''text'' (Some s)"

text \<open>
  A part made of one block holding one list of two items, the first of which holds a
  nested list of one item.
\<close>

definition nestedListPart :: node where
  "nestedListPart =
     Parent ''block'' [''keywords'']
       [Parent ''list'' []
          [listItem [textLeaf ''a'', Parent ''list'' [] [listItem [textLeaf ''b'']]],
           listItem [textLeaf ''c'']]]"

definition keywordsDef :: templatePartDefinition where
  "keywordsDef = \<lparr>part_id = ''keywords'', as_list = True\<rparr>"

definition abstractDef :: templatePartDefinition where
  "abstractDef = \<lparr>part_id = ''abstract'', as_list = False\<rparr>"

definition texJobFor :: "templateRef \<Rightarrow> string list \<Rightarrow> string export" where
  "texJobFor t as = \<lparr>format = tex, outputPath = ''/proj/out/main.tex'', template = t,
                     articles = Some as, sub_articles = None\<rparr>"

text \<open>
  A project directory \<^verbatim>\<open>/proj\<close> holding \<^verbatim>\<open>index.md\<close>, whose front matter declares the
  given export entries.
\<close>

definition exampleResolverEnv :: "string option export list \<Rightarrow> unit resolverEnv" where
  "exampleResolverEnv declared =
     \<lparr>selectLocalConfigFile = (\<lambda>_. None),
      selectRawProjectConfig = (\<lambda>_. None),
      getRawFrontmatterFromFile = (\<lambda>_ _. Some ()),
      getExportListFromRawFrontmatter = (\<lambda>_ _ _. declared),
      existsSync = (\<lambda>f. f = ''/proj/index.md''),
      cwd = ''/proj'',
      getDefaultExportFolder = (\<lambda>_ _ _. ''/proj/_build/exports''),
      getDefaultExportFilename = (\<lambda>_ _. ''index'')\<rparr>"

definition declaredTex :: "string \<Rightarrow> string option export" where
  "declaredTex out = \<lparr>format = tex, outputPath = Some out, template = Unspecified,
                      articles = None, sub_articles = None\<rparr>"

definition overrides :: "string option \<Rightarrow> string option \<Rightarrow> bool \<Rightarrow> bool \<Rightarrow> bool \<Rightarrow> exportOptions" where
  "overrides f t d fo z =
     \<lparr>filename = f, template_opt = t, disableTemplate = d, force = fo, zip_opt = z\<rparr>"

section \<open>Export Job Resolver: output-path deduplication\<close>

lemma length_filterAndMakeUnique:
  "length (filterAndMakeUnique exports) = length (definedOnly exports)"
  by (simp add: filterAndMakeUnique_def Let_def)

lemma nMatch_take_card:
  assumes "i \<le> length arr"
  shows "nMatch out (take i arr) = card {j. j < i \<and> outputPath (arr ! j) = out}"
proof -
  have "nMatch out (take i arr)
        = card {j. j < length (take i arr) \<and> outputPath (take i arr ! j) = out}"
    unfolding nMatch_def by (rule length_filter_conv_card)
  also have "{j. j < length (take i arr) \<and> outputPath (take i arr ! j) = out}
           = {j. j < i \<and> outputPath (arr ! j) = out}"
    using assms by auto
  finally show ?thesis .
qed

lemma filterAndMakeUnique_nth:
  assumes "i < length (definedOnly exports)"
  shows "filterAndMakeUnique exports ! i
         = makeUnique (definedOnly exports) i (definedOnly exports ! i)"
  using assms by (simp add: filterAndMakeUnique_def Let_def nth_enumerate_eq)

text \<open>
  C1, as the code has it. Two jobs that both compute \<^verbatim>\<open>out/file.tex\<close> do not come out as
  \<^verbatim>\<open>out/file.tex\<close> and \<^verbatim>\<open>out/file_1.tex\<close>: the first duplicate is renamed as well.
\<close>

theorem filterAndMakeUnique_first_duplicate_counterexample:
  "map outputPath (filterAndMakeUnique [Some (texJob ''out/file.tex''), Some (texJob ''out/file.tex'')])
     = [''out/file_0.tex'', ''out/file_1.tex''] \<and>
   map outputPath (filterAndMakeUnique [Some (texJob ''out/file.tex''), Some (texJob ''out/file.tex'')])
     \<noteq> [''out/file.tex'', ''out/file_1.tex'']"
  by code_simp

text \<open>
  C1 (amended): the batch keeps its length and its declaration order. The job at position
  \<open>i\<close> is unchanged when its output path occurs once in the batch. Otherwise only its
  output path changes: the suffix \<^verbatim>\<open>_k\<close> is inserted between the name and the extension,
  where \<open>k\<close> is the number of earlier jobs of the batch with the same output path. The
  numbering is zero-based, so the first duplicate becomes \<^verbatim>\<open>name_0.ext\<close> and the second
  \<^verbatim>\<open>name_1.ext\<close>.
\<close>

theorem filterAndMakeUnique_suffix:
  assumes "arr = definedOnly exports" and "i < length arr"
  shows "length (filterAndMakeUnique exports) = length arr \<and>
         filterAndMakeUnique exports ! i =
           (if nMatch (outputPath (arr ! i)) arr = 1 then arr ! i
            else (arr ! i)\<lparr>outputPath :=
                   posix_join
                     [dir (posix_parse (outputPath (arr ! i))),
                      name (posix_parse (outputPath (arr ! i))) @ ''_'' @
                      showNat (card {j. j < i \<and> outputPath (arr ! j) = outputPath (arr ! i)}) @
                      ext (posix_parse (outputPath (arr ! i)))]\<rparr>)"
proof -
  have "filterAndMakeUnique exports ! i = makeUnique arr i (arr ! i)"
    using assms by (simp add: filterAndMakeUnique_nth)
  moreover have "nMatch (outputPath (arr ! i)) (take i arr)
                 = card {j. j < i \<and> outputPath (arr ! j) = outputPath (arr ! i)}"
    using assms(2) by (simp add: nMatch_take_card)
  ultimately show ?thesis
    using assms(1) by (simp add: makeUnique_def Let_def length_filterAndMakeUnique)
qed

theorem filterAndMakeUnique_suffix_witness:
  "filterAndMakeUnique [Some (texJob ''out/file.tex''), None, Some (texJob ''out/file.tex'')] ! 0
     = texJob ''out/file_0.tex'' \<and>
   filterAndMakeUnique [Some (texJob ''out/file.tex''), None, Some (texJob ''out/file.tex'')] ! 1
     = texJob ''out/file_1.tex''"
proof -
  let ?exports = "[Some (texJob ''out/file.tex''), None, Some (texJob ''out/file.tex'')]"
  let ?arr = "[texJob ''out/file.tex'', texJob ''out/file.tex'']"
  have a: "?arr = definedOnly ?exports" by simp
  have b0: "(0::nat) < length ?arr" by simp
  have b1: "(1::nat) < length ?arr" by simp
  have c0: "{j. j < (0::nat) \<and> outputPath (?arr ! j) = outputPath (?arr ! 0)} = {}"
    by auto
  have c1: "{j. j < (1::nat) \<and> outputPath (?arr ! j) = outputPath (?arr ! 1)} = {0}"
    by auto
  have d0: "nMatch (outputPath (?arr ! 0)) ?arr = 2"
    by (simp add: nMatch_def)
  have d1: "nMatch (outputPath (?arr ! 1)) ?arr = 2"
    by (simp add: nMatch_def)
  have e: "posix_join [dir (posix_parse ''out/file.tex''),
             name (posix_parse ''out/file.tex'') @ ''_'' @ showNat 0 @ ext (posix_parse ''out/file.tex'')]
           = ''out/file_0.tex''"
          "posix_join [dir (posix_parse ''out/file.tex''),
             name (posix_parse ''out/file.tex'') @ ''_'' @ showNat 1 @ ext (posix_parse ''out/file.tex'')]
           = ''out/file_1.tex''"
    by code_simp+
  have e': "posix_join [dir (posix_parse ''out/file.tex''),
             name (posix_parse ''out/file.tex'') @ CHR ''_'' # showNat 0 @ ext (posix_parse ''out/file.tex'')]
           = ''out/file_0.tex''"
           "posix_join [dir (posix_parse ''out/file.tex''),
             name (posix_parse ''out/file.tex'') @ CHR ''_'' # showNat (Suc 0) @ ext (posix_parse ''out/file.tex'')]
           = ''out/file_1.tex''"
    using e by simp_all
  have f: "outputPath (texJob ''out/file.tex'') = ''out/file.tex''"
    by (simp add: texJob_def)
  from filterAndMakeUnique_suffix [OF a b0]
  have first: "filterAndMakeUnique ?exports ! 0
        = (texJob ''out/file.tex'')\<lparr>outputPath := ''out/file_0.tex''\<rparr>"
    unfolding c0 d0 by (simp add: e' f)
  from filterAndMakeUnique_suffix [OF a b1]
  have second: "filterAndMakeUnique ?exports ! 1
        = (texJob ''out/file.tex'')\<lparr>outputPath := ''out/file_1.tex''\<rparr>"
    unfolding c1 d1 by (simp add: e' f)
  from first second show ?thesis by (simp add: texJob_def)
qed

text \<open>
  C2, at the input the claim names. The batch \<^verbatim>\<open>x.tex\<close>, \<^verbatim>\<open>x.tex\<close>, \<^verbatim>\<open>x_0.tex\<close> comes out
  as \<^verbatim>\<open>x_0.tex\<close>, \<^verbatim>\<open>x_1.tex\<close>, \<^verbatim>\<open>x_0.tex\<close>: the third path occurs once and is kept, the
  first is renamed onto it, and the final paths are not pairwise distinct. The same
  happens in a whole Resolver invocation on a source file that declares these three
  outputs.
\<close>

theorem filterAndMakeUnique_collision:
  "map outputPath
     (filterAndMakeUnique
        [Some (texJob ''/proj/x.tex''), Some (texJob ''/proj/x.tex''), Some (texJob ''/proj/x_0.tex'')])
     = [''/proj/x_0.tex'', ''/proj/x_1.tex'', ''/proj/x_0.tex''] \<and>
   \<not> distinct (map outputPath
     (filterAndMakeUnique
        [Some (texJob ''/proj/x.tex''), Some (texJob ''/proj/x.tex''), Some (texJob ''/proj/x_0.tex'')])) \<and>
   fst (collectTexExportOptions
          (exampleResolverEnv [declaredTex ''x.tex'', declaredTex ''x.tex'', declaredTex ''x_0.tex''])
          emptySession ''index.md'' ''tex'' [tex] None (overrides None None False False False))
     = Inr [texJob ''/proj/x_0.tex'', texJob ''/proj/x_1.tex'', texJob ''/proj/x_0.tex'']"
  by code_simp

section \<open>Inline citations\<close>

lemma short_list: "length (xs :: 'a list) \<noteq> Suc 0 \<Longrightarrow> \<not> Suc 0 < length xs \<Longrightarrow> xs = []"
  by (cases xs) auto

lemma names_handled:
  fixes ns :: "cslName list"
  shows "ns = [] \<or> (\<exists>a. ns = [a]) \<or> (\<exists>a b. ns = [a, b]) \<or> (\<exists>a b c rest. ns = a # b # c # rest)"
  by (cases ns rule: list.exhaust; cases "tl ns"; cases "tl (tl ns)") auto

text \<open>
  C9, as stated: the final error branch can be reached. A record without authors whose
  \<^verbatim>\<open>editor\<close> is a truthy value that is no array (the object \<^verbatim>\<open>{}\<close>, say) passes every
  test on \<^verbatim>\<open>authors.length\<close> and ends in
  \<^verbatim>\<open>throw new Error('Unknown number of authors for citation')\<close>.
\<close>

theorem getInlineCitation_throw_counterexample:
  "getInlineCitation (exampleCitation None EditorOther) InlineCite_p None
     = Inl UnknownNumberOfAuthors"
  by (simp add: getInlineCitation_def exampleCitation_def)

text \<open>
  C9 (amended): \<open>getInlineCitation\<close> returns a non-empty list of inline nodes, and so does
  not take its final error branch, for every inline-cite kind and every (or no) options
  value and for every citation record that has an author, or whose \<^verbatim>\<open>editor\<close> is absent or an
  array of names, or when only the year is asked for: then the no-author case returns
  earlier using publisher or title, and lists of length 1, 2 and greater than 2 are each
  handled. For a record without authors whose \<^verbatim>\<open>editor\<close> is a truthy value without a
  numeric length, and with more than the year asked for, the final error branch is taken.
\<close>

theorem getInlineCitation_total:
  "((\<exists>a as. author data = Some (a # as)) \<or> editor data = EditorUndefined \<or>
    (\<exists>ns. editor data = EditorArray (map Some ns)) \<or>
    (\<exists>opt. opts = Some opt \<and> partial opt = Some Partial_year) \<longrightarrow>
      (\<exists>nodes. getInlineCitation data kind opts = Inr nodes \<and> nodes \<noteq> [])) \<and>
   ((author data = None \<or> author data = Some []) \<and> editor data = EditorOther \<and>
    \<not> (\<exists>opt. opts = Some opt \<and> partial opt = Some Partial_year) \<longrightarrow>
      getInlineCitation data kind opts = Inl UnknownNumberOfAuthors)"
proof (intro conjI impI)
  assume ok: "(\<exists>a as. author data = Some (a # as)) \<or> editor data = EditorUndefined \<or>
              (\<exists>ns. editor data = EditorArray (map Some ns)) \<or>
              (\<exists>opt. opts = Some opt \<and> partial opt = Some Partial_year)"
  let ?authors = "if author data = None \<or> author data = Some [] then editor data
                  else EditorArray (map Some (the (author data)))"
  show "\<exists>nodes. getInlineCitation data kind opts = Inr nodes \<and> nodes \<noteq> []"
  proof (cases "\<exists>opt. opts = Some opt \<and> partial opt = Some Partial_year")
    case True
    then show ?thesis
      unfolding getInlineCitation_def Let_def by auto
  next
    case False
    with ok have "?authors = EditorUndefined \<or> (\<exists>ns. ?authors = EditorArray (map Some ns))"
      by auto
    then show ?thesis
    proof
      assume "?authors = EditorUndefined"
      then show ?thesis
        unfolding getInlineCitation_def Let_def
        by (simp only: editorValue.case) simp
    next
      assume "\<exists>ns. ?authors = EditorArray (map Some ns)"
      then obtain ns where ns: "?authors = EditorArray (map Some ns)" by blast
      show ?thesis
        unfolding getInlineCitation_def Let_def ns
        using names_handled [of ns] by (simp only: editorValue.case) auto
    qed
  qed
next
  assume "(author data = None \<or> author data = Some []) \<and> editor data = EditorOther \<and>
          \<not> (\<exists>opt. opts = Some opt \<and> partial opt = Some Partial_year)"
  then show "getInlineCitation data kind opts = Inl UnknownNumberOfAuthors"
    by (auto simp: getInlineCitation_def Let_def split: option.splits)
qed

theorem getInlineCitation_total_witness:
  "getInlineCitation
     (exampleCitation None
        (EditorArray [Some (exampleName ''Smith''), Some (exampleName ''Jones''),
                      Some (exampleName ''Wu'')]))
     InlineCite_p None
     = Inr [textNode ''Smith '', InlineNode ''emphasis'' None (Some [textNode ''et al.'']),
            textNode '', 2020''] \<and>
   getInlineCitation (exampleCitation None EditorOther) InlineCite_t None
     = Inl UnknownNumberOfAuthors"
proof -
  let ?names = "[exampleName ''Smith'', exampleName ''Jones'', exampleName ''Wu'']"
  let ?data = "exampleCitation None (EditorArray (map Some ?names))"
  have names: "\<exists>ns. editor ?data = EditorArray (map Some ns)"
    by (intro exI [of _ ?names]) (simp add: exampleCitation_def)
  have "\<exists>nodes. getInlineCitation ?data InlineCite_p None = Inr nodes \<and> nodes \<noteq> []"
    using getInlineCitation_total [of ?data None InlineCite_p] names by blast
  then obtain nodes where nodes: "getInlineCitation ?data InlineCite_p None = Inr nodes"
    by blast
  have year: "showInt 2020 = ''2020''"
    by code_simp
  have "getInlineCitation ?data InlineCite_p None
        = Inr [textNode ''Smith '', InlineNode ''emphasis'' None (Some [textNode ''et al.'']),
               textNode '', 2020'']"
    using nodes
    by (simp add: getInlineCitation_def exampleCitation_def exampleName_def issuedYear_def
        showYear_def year)
  moreover have "getInlineCitation (exampleCitation None EditorOther) InlineCite_t None
                 = Inl UnknownNumberOfAuthors"
    using getInlineCitation_total [of "exampleCitation None EditorOther" None InlineCite_t]
    by (simp add: exampleCitation_def)
  ultimately show ?thesis by simp
qed

section \<open>Jupyter server discovery picks the newest server\<close>

lemma sorted_last_Max:
  fixes ys :: "'a::linorder list"
  shows "sorted ys \<Longrightarrow> ys \<noteq> [] \<Longrightarrow> last ys = Max (set ys)"
proof (induction ys)
  case Nil
  then show ?case by simp
next
  case (Cons y ys)
  show ?case
  proof (cases "ys = []")
    case True
    then show ?thesis by simp
  next
    case False
    with Cons have "last ys = Max (set ys)" by simp
    moreover have "y \<le> Max (set ys)"
      using Cons.prems(1) False by (simp add: Max_ge_iff) (meson last_in_set)
    ultimately show ?thesis
      using False by (simp add: max_def)
  qed
qed

lemma last_sort_key_Max:
  fixes f :: "'a \<Rightarrow> 'k::linorder"
  assumes "xs \<noteq> []"
  shows "f (last (sort_key f xs)) = Max (f ` set xs)"
proof -
  have ne: "sort_key f xs \<noteq> []"
    using assms by (metis length_0_conv length_sort)
  have "f (last (sort_key f xs)) = last (map f (sort_key f xs))"
    using ne by (simp add: last_map)
  also have "\<dots> = Max (set (map f (sort_key f xs)))"
    using ne by (intro sorted_last_Max) simp_all
  also have "\<dots> = Max (f ` set xs)"
    by simp
  finally show ?thesis .
qed

lemma last_filter_keep:
  assumes "xs \<noteq> []" and "P (last xs)"
  shows "last (filter P xs) = last xs"
  using assms by (cases xs rule: rev_cases) simp_all

lemma last_sort_key_stable:
  fixes f :: "'a \<Rightarrow> 'k::linorder"
  assumes "xs \<noteq> []"
  shows "last (sort_key f xs) = last (filter (\<lambda>x. f x = Max (f ` set xs)) xs)"
proof -
  let ?P = "\<lambda>x. f x = Max (f ` set xs)"
  have "?P (last (sort_key f xs))"
    using assms by (rule last_sort_key_Max)
  moreover have "sort_key f xs \<noteq> []"
    using assms by (metis length_0_conv length_sort)
  ultimately have "last (filter ?P (sort_key f xs)) = last (sort_key f xs)"
    by (simp add: last_filter_keep)
  moreover have "filter ?P (sort_key f xs) = filter ?P xs"
    by (rule sort_key_stable)
  ultimately show ?thesis by simp
qed

text \<open>
  C10: once \<^verbatim>\<open>python\<close> has been found and the listing subprocess has run,
  \<open>findExistingJupyterServer\<close> returns \<^verbatim>\<open>undefined\<close> when the exit status is not 0 and
  when the reported server list is empty. For a non-empty list it returns the \<^verbatim>\<open>url\<close> (as
  \<^verbatim>\<open>baseUrl\<close>) and the \<^verbatim>\<open>token\<close> of a listed server whose pid is the largest of the list:
  the last such server of the list when several share that pid.
\<close>

theorem findExistingJupyterServer_newest:
  assumes "which_sync h ''python'' = Some pythonPath"
    and "listProc = spawnSync h pythonPath [''-m'', ''jupyter_server'', ''list'', ''--jsonlist'']"
  shows "(status listProc \<noteq> Some 0 \<longrightarrow> findExistingJupyterServer h = Inr None) \<and>
         (status listProc = Some 0 \<and> JSON_parse h (stdout listProc) = Some [] \<longrightarrow>
            findExistingJupyterServer h = Inr None) \<and>
         (\<forall>servers. status listProc = Some 0 \<and> JSON_parse h (stdout listProc) = Some servers \<and>
            servers \<noteq> [] \<longrightarrow>
            (\<exists>s. s = last (filter (\<lambda>x. pid x = Max (pid ` set servers)) servers) \<and>
                 s \<in> set servers \<and> pid s = Max (pid ` set servers) \<and>
                 findExistingJupyterServer h
                   = Inr (Some \<lparr>baseUrl = url s, serverToken = token s\<rparr>)))"
proof (intro conjI allI impI)
  assume "status listProc \<noteq> Some 0"
  then show "findExistingJupyterServer h = Inr None"
    using assms by (simp add: findExistingJupyterServer_def)
next
  assume "status listProc = Some 0 \<and> JSON_parse h (stdout listProc) = Some []"
  then show "findExistingJupyterServer h = Inr None"
    using assms by (simp add: findExistingJupyterServer_def)
next
  fix servers
  assume a: "status listProc = Some 0 \<and> JSON_parse h (stdout listProc) = Some servers \<and>
             servers \<noteq> []"
  let ?s = "last (sort_key pid servers)"
  have ne: "sort_key pid servers \<noteq> []"
    using a by (metis length_0_conv length_sort)
  have "?s \<in> set (sort_key pid servers)"
    using ne by (rule last_in_set)
  then have mem: "?s \<in> set servers" by simp
  have stable: "?s = last (filter (\<lambda>x. pid x = Max (pid ` set servers)) servers)"
    using a by (simp add: last_sort_key_stable)
  have newest: "pid ?s = Max (pid ` set servers)"
    using a by (simp add: last_sort_key_Max)
  have "findExistingJupyterServer h = Inr (Some \<lparr>baseUrl = url ?s, serverToken = token ?s\<rparr>)"
    using a assms by (simp add: findExistingJupyterServer_def Let_def)
  with mem stable newest
  show "\<exists>s. s = last (filter (\<lambda>x. pid x = Max (pid ` set servers)) servers) \<and>
            s \<in> set servers \<and> pid s = Max (pid ` set servers) \<and>
            findExistingJupyterServer h = Inr (Some \<lparr>baseUrl = url s, serverToken = token s\<rparr>)"
    by metis
qed

theorem findExistingJupyterServer_newest_witness:
  "findExistingJupyterServer (exampleHost (Some 1) [server 5 ''u5'' ''t5'']) = Inr None \<and>
   findExistingJupyterServer (exampleHost None [server 5 ''u5'' ''t5'']) = Inr None \<and>
   findExistingJupyterServer (exampleHost (Some 0) []) = Inr None \<and>
   findExistingJupyterServer
     (exampleHost (Some 0)
        [server 5 ''u5'' ''t5'', server 9 ''u9a'' ''t9a'', server 9 ''u9b'' ''t9b'',
         server 1 ''u1'' ''t1''])
     = Inr (Some \<lparr>baseUrl = ''u9b'', serverToken = ''t9b''\<rparr>)"
proof -
  let ?args = "[''-m'', ''jupyter_server'', ''list'', ''--jsonlist'']"
  let ?servers = "[server 5 ''u5'' ''t5'', server 9 ''u9a'' ''t9a'', server 9 ''u9b'' ''t9b'',
                   server 1 ''u1'' ''t1'']"
  have w: "which_sync (exampleHost st ss) ''python'' = Some ''/usr/bin/python''" for st ss
    by (simp add: exampleHost_def)
  have p: "\<lparr>status = st, stdout = ''[]''\<rparr> = spawnSync (exampleHost st ss) ''/usr/bin/python'' ?args"
    for st ss
    by (simp add: exampleHost_def)
  have j: "JSON_parse (exampleHost st ss) out = Some ss" for st ss out
    by (simp add: exampleHost_def)
  have m: "Max (pid ` set ?servers) = 9"
    by (simp add: server_def)
  have l: "last (filter (\<lambda>x. pid x = 9) ?servers) = server 9 ''u9b'' ''t9b''"
    by (simp add: server_def)
  have "findExistingJupyterServer (exampleHost (Some 1) [server 5 ''u5'' ''t5'']) = Inr None"
    using findExistingJupyterServer_newest [OF w p, of "Some 1" "[server 5 ''u5'' ''t5'']"]
    by simp
  moreover have "findExistingJupyterServer (exampleHost None [server 5 ''u5'' ''t5'']) = Inr None"
    using findExistingJupyterServer_newest [OF w p, of None "[server 5 ''u5'' ''t5'']"]
    by simp
  moreover have "findExistingJupyterServer (exampleHost (Some 0) []) = Inr None"
    using findExistingJupyterServer_newest [OF w p, of "Some 0" "[]"]
    by (simp add: j)
  moreover have "findExistingJupyterServer (exampleHost (Some 0) ?servers)
                 = Inr (Some \<lparr>baseUrl = ''u9b'', serverToken = ''t9b''\<rparr>)"
  proof -
    from findExistingJupyterServer_newest [OF w p, of "Some 0" ?servers]
    have "\<exists>s. s = last (filter (\<lambda>x. pid x = Max (pid ` set ?servers)) ?servers) \<and>
              findExistingJupyterServer (exampleHost (Some 0) ?servers)
                = Inr (Some \<lparr>baseUrl = url s, serverToken = token s\<rparr>)"
      using j [of "Some 0" ?servers] by (simp del: set_simps)
    then show ?thesis
      unfolding m l by (simp add: server_def)
  qed
  ultimately show ?thesis by simp
qed

section \<open>Side-Data Merger: algebra of the merge\<close>

lemma set_dedupe: "set (dedupe xs) = set xs"
  by (induction xs) auto

lemma distinct_dedupe: "distinct (dedupe xs)"
  by (induction xs) (auto simp: set_dedupe)

lemma dedupe_distinct: "distinct xs \<Longrightarrow> dedupe xs = xs"
proof (induction xs)
  case Nil
  then show ?case by simp
next
  case (Cons x xs)
  then have "filter (\<lambda>y. y \<noteq> x) xs = xs"
    by (auto intro: filter_True)
  with Cons show ?case by simp
qed

lemma dedupe_append:
  "dedupe (xs @ ys) = dedupe xs @ filter (\<lambda>y. y \<notin> set xs) (dedupe ys)"
proof (induction xs)
  case Nil
  then show ?case by simp
next
  case (Cons x xs)
  have "filter (\<lambda>y. y \<noteq> x) (filter (\<lambda>y. y \<notin> set xs) (dedupe ys))
        = filter (\<lambda>y. y \<notin> set (x # xs)) (dedupe ys)"
    by (auto simp: conj_commute intro: filter_cong)
  with Cons show ?case by simp
qed

lemma dedupe_append_left: "dedupe (dedupe xs @ ys) = dedupe (xs @ ys)"
  by (simp add: dedupe_append set_dedupe dedupe_distinct distinct_dedupe)

lemma dedupe_append_right: "dedupe (xs @ dedupe ys) = dedupe (xs @ ys)"
  by (simp add: dedupe_append dedupe_distinct distinct_dedupe)

lemma dedupe_assoc: "dedupe (dedupe (a @ b) @ c) = dedupe (a @ dedupe (b @ c))"
  by (simp add: dedupe_append_left dedupe_append_right)

lemma map_of_mergeRecord: "map_of (mergeRecord cur nxt) = map_of cur ++ map_of nxt"
proof
  fix k
  have left: "map_of (map (\<lambda>(k, v). (k, case map_of nxt k of None \<Rightarrow> v | Some w \<Rightarrow> w)) cur) k
              = (case map_of cur k of None \<Rightarrow> None
                 | Some v \<Rightarrow> Some (case map_of nxt k of None \<Rightarrow> v | Some w \<Rightarrow> w))"
    by (induction cur) (auto split: option.splits)
  have right: "map_of (filter (\<lambda>(k, w). k \<notin> fst ` set cur) nxt) k
               = (if k \<in> fst ` set cur then None else map_of nxt k)"
    by (induction nxt) (fastforce simp: image_iff)+
  have dom: "(k \<in> fst ` set cur) = (map_of cur k \<noteq> None)"
    by (simp add: map_of_eq_None_iff)
  show "map_of (mergeRecord cur nxt) k = (map_of cur ++ map_of nxt) k"
    unfolding mergeRecord_def map_of_append map_add_def left right dom
    by (simp split: option.splits)
qed

lemma set_overwrittenKeys:
  "set (overwrittenKeys cur nxt) = fst ` set cur \<inter> fst ` set nxt"
  by (auto simp: overwrittenKeys_def)

lemma length_overwrittenKeys:
  assumes "distinct (map fst nxt)"
  shows "length (overwrittenKeys cur nxt) = card (fst ` set cur \<inter> fst ` set nxt)"
proof -
  have "length (overwrittenKeys cur nxt) = card ({k. k \<in> fst ` set cur} \<inter> set (map fst nxt))"
    unfolding overwrittenKeys_def using assms by (rule distinct_length_filter)
  then show ?thesis by simp
qed

text \<open>
  C8, as stated: on the ordered import list the merge is not commutative. Merging
  \<^verbatim>\<open>[amsmath]\<close> with \<^verbatim>\<open>[graphicx]\<close> gives \<^verbatim>\<open>[amsmath, graphicx]\<close>, the other way round
  \<^verbatim>\<open>[graphicx, amsmath]\<close>.
\<close>

theorem mergeTexTemplateImports_order_counterexample:
  "texImports (fst (mergeTexTemplateImports \<lparr>texImports = [''amsmath''], commands = []\<rparr>
                                            \<lparr>texImports = [''graphicx''], commands = []\<rparr>))
   \<noteq> texImports (fst (mergeTexTemplateImports \<lparr>texImports = [''graphicx''], commands = []\<rparr>
                                              \<lparr>texImports = [''amsmath''], commands = []\<rparr>))"
  by (simp add: mergeTexTemplateImports_def)

text \<open>
  C8 (amended): the merge of the ordered import list (concatenate, then dedup by first
  occurrence) is associative, and commutative up to the order of the list: both orders
  give duplicate-free lists with the same elements. The merge of the two preamble
  booleans (logical OR) is associative and commutative. On the macro and the
  glossary/abbreviation mappings the merge is the union by key in which the later value
  wins, and the diagnostic callback is invoked for exactly the overwritten keys, once for
  each when the later mapping has one entry per key; merging \<^verbatim>\<open>{a: 1}\<close> then \<^verbatim>\<open>{a: 2}\<close> gives
  \<^verbatim>\<open>{a: 2}\<close> and exactly one conflict diagnostic, for \<^verbatim>\<open>a\<close>.
\<close>

theorem side_data_merge_algebra:
  "texImports (fst (mergeTexTemplateImports (fst (mergeTexTemplateImports a b)) c))
     = texImports (fst (mergeTexTemplateImports a (fst (mergeTexTemplateImports b c)))) \<and>
   set (texImports (fst (mergeTexTemplateImports a b)))
     = set (texImports (fst (mergeTexTemplateImports b a))) \<and>
   distinct (texImports (fst (mergeTexTemplateImports a b))) \<and>
   hasProofs (fst (mergePreambles (fst (mergePreambles p q)) r))
     = hasProofs (fst (mergePreambles p (fst (mergePreambles q r)))) \<and>
   printGlossaries (fst (mergePreambles (fst (mergePreambles p q)) r))
     = printGlossaries (fst (mergePreambles p (fst (mergePreambles q r)))) \<and>
   hasProofs (fst (mergePreambles p q)) = hasProofs (fst (mergePreambles q p)) \<and>
   printGlossaries (fst (mergePreambles p q)) = printGlossaries (fst (mergePreambles q p)) \<and>
   map_of (commands (fst (mergeTexTemplateImports a b)))
     = map_of (commands a) ++ map_of (commands b) \<and>
   map_of (glossary (fst (mergePreambles p q))) = map_of (glossary p) ++ map_of (glossary q) \<and>
   map_of (abbreviations (fst (mergePreambles p q)))
     = map_of (abbreviations p) ++ map_of (abbreviations q) \<and>
   set (snd (mergeTexTemplateImports a b)) = fst ` set (commands a) \<inter> fst ` set (commands b) \<and>
   set (snd (mergePreambles p q))
     = (fst ` set (glossary p) \<inter> fst ` set (glossary q)) \<union>
       (fst ` set (abbreviations p) \<inter> fst ` set (abbreviations q)) \<and>
   (distinct (map fst (commands b)) \<longrightarrow>
      length (snd (mergeTexTemplateImports a b))
        = card (fst ` set (commands a) \<inter> fst ` set (commands b))) \<and>
   (distinct (map fst (glossary q)) \<and> distinct (map fst (abbreviations q)) \<longrightarrow>
      length (snd (mergePreambles p q))
        = card (fst ` set (glossary p) \<inter> fst ` set (glossary q)) +
          card (fst ` set (abbreviations p) \<inter> fst ` set (abbreviations q))) \<and>
   mergeTexTemplateImports
     \<lparr>texImports = [], commands = [(''a'', ''1'')]\<rparr> \<lparr>texImports = [], commands = [(''a'', ''2'')]\<rparr>
     = (\<lparr>texImports = [], commands = [(''a'', ''2'')]\<rparr>, [''a'']) \<and>
   mergePreambles
     \<lparr>hasProofs = False, printGlossaries = False, glossary = [(''a'', ''1'')], abbreviations = []\<rparr>
     \<lparr>hasProofs = False, printGlossaries = False, glossary = [(''a'', ''2'')], abbreviations = []\<rparr>
     = (\<lparr>hasProofs = False, printGlossaries = False, glossary = [(''a'', ''2'')],
         abbreviations = []\<rparr>, [''a''])"
proof -
  have imports_assoc:
    "texImports (fst (mergeTexTemplateImports (fst (mergeTexTemplateImports a b)) c))
       = texImports (fst (mergeTexTemplateImports a (fst (mergeTexTemplateImports b c))))"
    by (simp add: mergeTexTemplateImports_def dedupe_assoc)
  have imports_comm:
    "set (texImports (fst (mergeTexTemplateImports a b)))
       = set (texImports (fst (mergeTexTemplateImports b a)))"
    by (auto simp: mergeTexTemplateImports_def set_dedupe)
  have imports_distinct: "distinct (texImports (fst (mergeTexTemplateImports a b)))"
    by (simp add: mergeTexTemplateImports_def distinct_dedupe)
  have booleans:
    "hasProofs (fst (mergePreambles (fst (mergePreambles p q)) r))
       = hasProofs (fst (mergePreambles p (fst (mergePreambles q r))))"
    "printGlossaries (fst (mergePreambles (fst (mergePreambles p q)) r))
       = printGlossaries (fst (mergePreambles p (fst (mergePreambles q r))))"
    "hasProofs (fst (mergePreambles p q)) = hasProofs (fst (mergePreambles q p))"
    "printGlossaries (fst (mergePreambles p q)) = printGlossaries (fst (mergePreambles q p))"
    by (auto simp: mergePreambles_def)
  have maps:
    "map_of (commands (fst (mergeTexTemplateImports a b)))
       = map_of (commands a) ++ map_of (commands b)"
    "map_of (glossary (fst (mergePreambles p q))) = map_of (glossary p) ++ map_of (glossary q)"
    "map_of (abbreviations (fst (mergePreambles p q)))
       = map_of (abbreviations p) ++ map_of (abbreviations q)"
    by (simp_all add: mergeTexTemplateImports_def mergePreambles_def map_of_mergeRecord)
  have diagnostics:
    "set (snd (mergeTexTemplateImports a b)) = fst ` set (commands a) \<inter> fst ` set (commands b)"
    "set (snd (mergePreambles p q))
       = (fst ` set (glossary p) \<inter> fst ` set (glossary q)) \<union>
         (fst ` set (abbreviations p) \<inter> fst ` set (abbreviations q))"
    by (simp_all add: mergeTexTemplateImports_def mergePreambles_def set_overwrittenKeys)
  have macro_count:
    "distinct (map fst (commands b)) \<longrightarrow>
       length (snd (mergeTexTemplateImports a b))
         = card (fst ` set (commands a) \<inter> fst ` set (commands b))"
    by (simp add: mergeTexTemplateImports_def length_overwrittenKeys)
  have preamble_count:
    "distinct (map fst (glossary q)) \<and> distinct (map fst (abbreviations q)) \<longrightarrow>
       length (snd (mergePreambles p q))
         = card (fst ` set (glossary p) \<inter> fst ` set (glossary q)) +
           card (fst ` set (abbreviations p) \<inter> fst ` set (abbreviations q))"
    by (simp add: mergePreambles_def length_overwrittenKeys)
  have macro_scenario:
    "mergeTexTemplateImports
       \<lparr>texImports = [], commands = [(''a'', ''1'')]\<rparr> \<lparr>texImports = [], commands = [(''a'', ''2'')]\<rparr>
       = (\<lparr>texImports = [], commands = [(''a'', ''2'')]\<rparr>, [''a''])"
    by (simp add: mergeTexTemplateImports_def mergeRecord_def overwrittenKeys_def)
  have preamble_scenario:
    "mergePreambles
       \<lparr>hasProofs = False, printGlossaries = False, glossary = [(''a'', ''1'')], abbreviations = []\<rparr>
       \<lparr>hasProofs = False, printGlossaries = False, glossary = [(''a'', ''2'')], abbreviations = []\<rparr>
       = (\<lparr>hasProofs = False, printGlossaries = False, glossary = [(''a'', ''2'')],
           abbreviations = []\<rparr>, [''a''])"
    by (simp add: mergePreambles_def mergeRecord_def overwrittenKeys_def)
  show ?thesis
    by (intro conjI imports_assoc imports_comm imports_distinct booleans maps diagnostics
        macro_count preamble_count macro_scenario preamble_scenario)
qed

theorem side_data_merge_algebra_witness:
  "texImports (fst (mergeTexTemplateImports
       (fst (mergeTexTemplateImports
          \<lparr>texImports = [''a'', ''b''], commands = [(''x'', ''1''), (''y'', ''2'')]\<rparr>
          \<lparr>texImports = [''b'', ''c''], commands = [(''y'', ''3''), (''z'', ''4'')]\<rparr>))
       \<lparr>texImports = [''c'', ''a'', ''d''], commands = []\<rparr>))
     = [''a'', ''b'', ''c'', ''d''] \<and>
   texImports (fst (mergeTexTemplateImports
       \<lparr>texImports = [''a'', ''b''], commands = [(''x'', ''1''), (''y'', ''2'')]\<rparr>
       (fst (mergeTexTemplateImports
          \<lparr>texImports = [''b'', ''c''], commands = [(''y'', ''3''), (''z'', ''4'')]\<rparr>
          \<lparr>texImports = [''c'', ''a'', ''d''], commands = []\<rparr>))))
     = [''a'', ''b'', ''c'', ''d''] \<and>
   length (snd (mergeTexTemplateImports
       \<lparr>texImports = [''a'', ''b''], commands = [(''x'', ''1''), (''y'', ''2'')]\<rparr>
       \<lparr>texImports = [''b'', ''c''], commands = [(''y'', ''3''), (''z'', ''4'')]\<rparr>))
     = 1"
proof -
  let ?a = "\<lparr>texImports = [''a'', ''b''], commands = [(''x'', ''1''), (''y'', ''2'')]\<rparr>"
  let ?b = "\<lparr>texImports = [''b'', ''c''], commands = [(''y'', ''3''), (''z'', ''4'')]\<rparr>"
  let ?c = "\<lparr>texImports = [''c'', ''a'', ''d''], commands = ([] :: (string \<times> string) list)\<rparr>"
  note algebra = side_data_merge_algebra [of ?a ?b ?c]
  have left: "texImports (fst (mergeTexTemplateImports (fst (mergeTexTemplateImports ?a ?b)) ?c))
              = [''a'', ''b'', ''c'', ''d'']"
    by (simp add: mergeTexTemplateImports_def)
  have keys: "distinct (map fst (commands ?b))"
    by simp
  have overlap: "fst ` set (commands ?a) \<inter> fst ` set (commands ?b) = {''y''}"
    by auto
  from algebra left have right:
    "texImports (fst (mergeTexTemplateImports ?a (fst (mergeTexTemplateImports ?b ?c))))
     = [''a'', ''b'', ''c'', ''d'']"
    by simp
  from algebra keys have "length (snd (mergeTexTemplateImports ?a ?b))
                          = card (fst ` set (commands ?a) \<inter> fst ` set (commands ?b))"
    by blast
  then have count: "length (snd (mergeTexTemplateImports ?a ?b)) = 1"
    unfolding overlap by simp
  from left right count show ?thesis by simp
qed

section \<open>Extraction by tag\<close>

lemma taggedBlocks_selectAll:
  "taggedBlocks t n = filter (carriesTag t) (selectAll ''block'' n)"
proof (induction n)
  case (Leaf ty v)
  then show ?case by simp
next
  case (Parent ty tags cs)
  then have eq: "map (taggedBlocks t) cs = map (\<lambda>c. filter (carriesTag t) (selectAll ''block'' c)) cs"
    by simp
  show ?case
    unfolding taggedBlocks.simps selectAll.simps eq
    by (simp add: filter_concat comp_def)
qed

lemma emptyTagged_untagged: "taggedBlocks t n = [] \<Longrightarrow> emptyTagged t n = n"
proof (induction n)
  case (Leaf ty v)
  then show ?case by simp
next
  case (Parent ty tags cs)
  from Parent.prems have untagged: "\<not> carriesTag t (Parent ty tags cs)"
    by (auto split: if_splits)
  from Parent.prems have "\<forall>c \<in> set cs. taggedBlocks t c = []"
    by (auto split: if_splits)
  with Parent.IH have "map (emptyTagged t) cs = cs"
    by (simp add: map_idI)
  with untagged show ?case by auto
qed

lemma emptyTagged_emptied:
  "b \<in> set (taggedBlocks t (emptyTagged t n)) \<Longrightarrow> nodeChildren b = []"
proof (induction n)
  case (Leaf ty v)
  then show ?case by simp
next
  case (Parent ty tags cs)
  then show ?case by (auto split: if_splits)
qed

lemma emptyTagged_tagged_child:
  "carriesTag t c \<Longrightarrow> emptyTagged t c = Parent (nodeType c) (case c of Parent ty tags cs \<Rightarrow> tags | Leaf ty v \<Rightarrow> []) []"
  by (cases c) auto

lemma emptyTagged_label:
  "nodeType (emptyTagged t n) = nodeType n"
  "nodeTags (emptyTagged t n) = nodeTags n"
  "nodeValue (emptyTagged t n) = nodeValue n"
  by (cases n; simp)+

lemma emptyTagged_tagged: "carriesTag t n \<Longrightarrow> emptyTagged t n = Parent (nodeType n) (nodeTags n) []"
  by (cases n) auto

lemma emptyTagged_arity:
  assumes "\<not> carriesTag t n"
  shows "(childrenOpt (emptyTagged t n) = None) = (childrenOpt n = None)"
    and "length (nodeChildren (emptyTagged t n)) = length (nodeChildren n)"
  using assms by (cases n; auto)+

lemma nodeAt_emptyTagged:
  assumes "nodeAt tree p = Some n"
    and "\<forall>k < length p. \<forall>m. nodeAt tree (take k p) = Some m \<longrightarrow> \<not> carriesTag t m"
  shows "nodeAt (emptyTagged t tree) p = Some (emptyTagged t n)"
  using assms
proof (induction p arbitrary: tree)
  case Nil
  then show ?case by simp
next
  case (Cons i p)
  from Cons.prems(1) obtain ty tags cs where tree: "tree = Parent ty tags cs"
    by (cases tree) auto
  from Cons.prems(1) tree have i: "i < length cs" and below: "nodeAt (cs ! i) p = Some n"
    by (auto split: if_splits)
  from Cons.prems(2) [rule_format, of 0 tree] have untagged: "\<not> carriesTag t tree"
    by simp
  have above: "\<forall>k < length p. \<forall>m. nodeAt (cs ! i) (take k p) = Some m \<longrightarrow> \<not> carriesTag t m"
  proof (intro allI impI)
    fix k m
    assume "k < length p" and "nodeAt (cs ! i) (take k p) = Some m"
    then have "Suc k < length (i # p)" and "nodeAt tree (take (Suc k) (i # p)) = Some m"
      using tree i by simp_all
    with Cons.prems(2) show "\<not> carriesTag t m" by blast
  qed
  from Cons.IH [OF below above]
  have "nodeAt (emptyTagged t (cs ! i)) p = Some (emptyTagged t n)" .
  moreover have "emptyTagged t tree = Parent ty tags (map (emptyTagged t) cs)"
    using untagged tree by auto
  ultimately show ?case using i by simp
qed

lemma nodeAt_emptyTagged_origin:
  assumes "nodeAt (emptyTagged t tree) p = Some n'"
  shows "\<exists>n. nodeAt tree p = Some n \<and> n' = emptyTagged t n"
  using assms
proof (induction p arbitrary: tree)
  case Nil
  then show ?case by simp
next
  case (Cons i p)
  show ?case
  proof (cases tree)
    case (Leaf ty v)
    with Cons.prems show ?thesis by simp
  next
    case (Parent ty tags cs)
    show ?thesis
    proof (cases "carriesTag t tree")
      case True
      with Cons.prems Parent show ?thesis by simp
    next
      case False
      with Parent have "emptyTagged t tree = Parent ty tags (map (emptyTagged t) cs)"
        by auto
      with Cons.prems have i: "i < length cs"
        and below: "nodeAt (emptyTagged t (cs ! i)) p = Some n'"
        by (auto split: if_splits)
      from Cons.IH [OF below] obtain n where "nodeAt (cs ! i) p = Some n" "n' = emptyTagged t n"
        by blast
      with Parent i show ?thesis by simp
    qed
  qed
qed

text \<open>
  C7: for every renderer, tree, tag definition and front matter, with \<open>t\<close> the tag:
  \<^item> the matched blocks are the block nodes carrying the tag, in document order;
  \<^item> with no match, the result is \<^verbatim>\<open>undefined\<close> and the tree is returned as it was;
  \<^item> with a match, the returned value is the rendered content of the matched blocks in
    document order, joined by a blank line;
  \<^item> after the call every block carrying the tag is empty;
  \<^item> under a root that does not carry the tag, the root keeps its type, its tags and the
    number of its children; a child subtree without a tagged block is untouched, and a
    child carrying the tag keeps its type and loses its children;
  \<^item> at every position of the tree that does not lie below a block carrying the tag: a
    block carrying the tag is replaced by the same block (type and tags) without
    children; a subtree without a tagged block is left exactly as it was; any other node
    keeps its type, tags, value and number of children;
  \<^item> every node of the tree after the call stands at a position the tree had before, with
    the type, tags and value it had there: nothing is added or relabelled;
  \<^item> \<^verbatim>\<open>max_chars\<close> and \<^verbatim>\<open>max_words\<close> do not influence the result: nothing is truncated.
\<close>

theorem extractTaggedContent_behaviour:
  "taggedBlocks (tag_id td) tree = filter (carriesTag (tag_id td)) (selectAll ''block'' tree) \<and>
   (taggedBlocks (tag_id td) tree = [] \<longrightarrow>
      extractTaggedContent render tree td fm = (None, tree)) \<and>
   (taggedBlocks (tag_id td) tree \<noteq> [] \<longrightarrow>
      (\<exists>r. fst (extractTaggedContent render tree td fm) = Some r \<and>
           texValue r = joinWith [CHR 0x0A, CHR 0x0A]
             (map (\<lambda>b. texValue (render (nodeChildren b) fm)) (taggedBlocks (tag_id td) tree)))) \<and>
   (\<forall>b \<in> set (taggedBlocks (tag_id td) (snd (extractTaggedContent render tree td fm))).
      nodeChildren b = []) \<and>
   (\<forall>ty tags cs. tree = Parent ty tags cs \<and> \<not> carriesTag (tag_id td) tree \<longrightarrow>
      (\<exists>cs'. snd (extractTaggedContent render tree td fm) = Parent ty tags cs' \<and>
             length cs' = length cs \<and>
             (\<forall>i < length cs.
                (taggedBlocks (tag_id td) (cs ! i) = [] \<longrightarrow> cs' ! i = cs ! i) \<and>
                (carriesTag (tag_id td) (cs ! i) \<longrightarrow>
                   nodeType (cs' ! i) = nodeType (cs ! i) \<and> nodeChildren (cs' ! i) = [])))) \<and>
   (\<forall>p n. nodeAt tree p = Some n \<and>
      (\<forall>k < length p. \<forall>m. nodeAt tree (take k p) = Some m \<longrightarrow> \<not> carriesTag (tag_id td) m) \<longrightarrow>
      (carriesTag (tag_id td) n \<longrightarrow>
         nodeAt (snd (extractTaggedContent render tree td fm)) p
           = Some (Parent (nodeType n) (nodeTags n) [])) \<and>
      (taggedBlocks (tag_id td) n = [] \<longrightarrow>
         nodeAt (snd (extractTaggedContent render tree td fm)) p = Some n) \<and>
      (\<not> carriesTag (tag_id td) n \<longrightarrow>
         (\<exists>n'. nodeAt (snd (extractTaggedContent render tree td fm)) p = Some n' \<and>
               nodeType n' = nodeType n \<and> nodeTags n' = nodeTags n \<and>
               nodeValue n' = nodeValue n \<and>
               (childrenOpt n' = None) = (childrenOpt n = None) \<and>
               length (nodeChildren n') = length (nodeChildren n)))) \<and>
   (\<forall>p n'. nodeAt (snd (extractTaggedContent render tree td fm)) p = Some n' \<longrightarrow>
      (\<exists>n. nodeAt tree p = Some n \<and> nodeType n' = nodeType n \<and> nodeTags n' = nodeTags n \<and>
           nodeValue n' = nodeValue n)) \<and>
   extractTaggedContent render tree (td\<lparr>max_chars := mc, max_words := mw\<rparr>) fm
     = extractTaggedContent render tree td fm"
proof -
  let ?t = "tag_id td"
  let ?res = "extractTaggedContent render tree td fm"
  have tree: "snd ?res = emptyTagged ?t tree"
    by (simp add: extractTaggedContent_def Let_def emptyTagged_untagged)
  have order: "taggedBlocks ?t tree = filter (carriesTag ?t) (selectAll ''block'' tree)"
    by (rule taggedBlocks_selectAll)
  have absent: "taggedBlocks ?t tree = [] \<longrightarrow> ?res = (None, tree)"
    by (simp add: extractTaggedContent_def)
  have present: "taggedBlocks ?t tree \<noteq> [] \<longrightarrow>
      (\<exists>r. fst ?res = Some r \<and>
           texValue r = joinWith [CHR 0x0A, CHR 0x0A]
             (map (\<lambda>b. texValue (render (nodeChildren b) fm)) (taggedBlocks ?t tree)))"
    by (simp add: extractTaggedContent_def Let_def comp_def)
  have emptied: "\<forall>b \<in> set (taggedBlocks ?t (snd ?res)). nodeChildren b = []"
    unfolding tree by (blast intro: emptyTagged_emptied)
  have untouched: "\<forall>ty tags cs. tree = Parent ty tags cs \<and> \<not> carriesTag ?t tree \<longrightarrow>
      (\<exists>cs'. snd ?res = Parent ty tags cs' \<and> length cs' = length cs \<and>
             (\<forall>i < length cs.
                (taggedBlocks ?t (cs ! i) = [] \<longrightarrow> cs' ! i = cs ! i) \<and>
                (carriesTag ?t (cs ! i) \<longrightarrow>
                   nodeType (cs' ! i) = nodeType (cs ! i) \<and> nodeChildren (cs' ! i) = [])))"
  proof (intro allI impI)
    fix ty tags cs
    assume a: "tree = Parent ty tags cs \<and> \<not> carriesTag ?t tree"
    then have "snd ?res = Parent ty tags (map (emptyTagged ?t) cs)"
      unfolding tree by auto
    moreover have "\<forall>i < length cs.
        (taggedBlocks ?t (cs ! i) = [] \<longrightarrow> map (emptyTagged ?t) cs ! i = cs ! i) \<and>
        (carriesTag ?t (cs ! i) \<longrightarrow>
           nodeType (map (emptyTagged ?t) cs ! i) = nodeType (cs ! i) \<and>
           nodeChildren (map (emptyTagged ?t) cs ! i) = [])"
      by (simp add: emptyTagged_untagged emptyTagged_tagged_child)
    ultimately show "\<exists>cs'. snd ?res = Parent ty tags cs' \<and> length cs' = length cs \<and>
             (\<forall>i < length cs.
                (taggedBlocks ?t (cs ! i) = [] \<longrightarrow> cs' ! i = cs ! i) \<and>
                (carriesTag ?t (cs ! i) \<longrightarrow>
                   nodeType (cs' ! i) = nodeType (cs ! i) \<and> nodeChildren (cs' ! i) = []))"
      by (intro exI [of _ "map (emptyTagged ?t) cs"]) simp
  qed
  have positions: "\<forall>p n. nodeAt tree p = Some n \<and>
      (\<forall>k < length p. \<forall>m. nodeAt tree (take k p) = Some m \<longrightarrow> \<not> carriesTag ?t m) \<longrightarrow>
      (carriesTag ?t n \<longrightarrow> nodeAt (snd ?res) p = Some (Parent (nodeType n) (nodeTags n) [])) \<and>
      (taggedBlocks ?t n = [] \<longrightarrow> nodeAt (snd ?res) p = Some n) \<and>
      (\<not> carriesTag ?t n \<longrightarrow>
         (\<exists>n'. nodeAt (snd ?res) p = Some n' \<and>
               nodeType n' = nodeType n \<and> nodeTags n' = nodeTags n \<and>
               nodeValue n' = nodeValue n \<and>
               (childrenOpt n' = None) = (childrenOpt n = None) \<and>
               length (nodeChildren n') = length (nodeChildren n)))"
  proof (intro allI impI)
    fix p n
    assume a: "nodeAt tree p = Some n \<and>
      (\<forall>k < length p. \<forall>m. nodeAt tree (take k p) = Some m \<longrightarrow> \<not> carriesTag ?t m)"
    then have at: "nodeAt (snd ?res) p = Some (emptyTagged ?t n)"
      unfolding tree by (intro nodeAt_emptyTagged) blast+
    show "(carriesTag ?t n \<longrightarrow> nodeAt (snd ?res) p = Some (Parent (nodeType n) (nodeTags n) [])) \<and>
      (taggedBlocks ?t n = [] \<longrightarrow> nodeAt (snd ?res) p = Some n) \<and>
      (\<not> carriesTag ?t n \<longrightarrow>
         (\<exists>n'. nodeAt (snd ?res) p = Some n' \<and>
               nodeType n' = nodeType n \<and> nodeTags n' = nodeTags n \<and>
               nodeValue n' = nodeValue n \<and>
               (childrenOpt n' = None) = (childrenOpt n = None) \<and>
               length (nodeChildren n') = length (nodeChildren n)))"
      unfolding at
      by (simp add: emptyTagged_tagged emptyTagged_untagged emptyTagged_label emptyTagged_arity)
  qed
  have origin: "\<forall>p n'. nodeAt (snd ?res) p = Some n' \<longrightarrow>
      (\<exists>n. nodeAt tree p = Some n \<and> nodeType n' = nodeType n \<and> nodeTags n' = nodeTags n \<and>
           nodeValue n' = nodeValue n)"
  proof (intro allI impI)
    fix p n'
    assume "nodeAt (snd ?res) p = Some n'"
    then obtain n where "nodeAt tree p = Some n" "n' = emptyTagged ?t n"
      unfolding tree using nodeAt_emptyTagged_origin by blast
    then show "\<exists>n. nodeAt tree p = Some n \<and> nodeType n' = nodeType n \<and>
                   nodeTags n' = nodeTags n \<and> nodeValue n' = nodeValue n"
      by (simp add: emptyTagged_label)
  qed
  have limits: "extractTaggedContent render tree (td\<lparr>max_chars := mc, max_words := mw\<rparr>) fm = ?res"
    by (simp add: extractTaggedContent_def Let_def)
  show ?thesis
    by (intro conjI order absent present emptied untouched positions origin limits)
qed

theorem extractTaggedContent_behaviour_witness:
  "extractTaggedContent plainRender (Parent ''root'' [] [Leaf ''text'' (Some ''untagged content'')])
     \<lparr>tag_id = ''test_tag'', required = Some True, max_chars = None, max_words = None\<rparr> noFrontmatter
     = (None, Parent ''root'' [] [Leaf ''text'' (Some ''untagged content'')]) \<and>
   (\<exists>r. fst (extractTaggedContent plainRender testTree
               \<lparr>tag_id = ''test_tag'', required = None, max_chars = Some 5, max_words = Some 1\<rparr>
               noFrontmatter) = Some r \<and>
        texValue r = ''tagged content'' @ [CHR 0x0A, CHR 0x0A] @ ''also tagged content'') \<and>
   snd (extractTaggedContent plainRender testTree
          \<lparr>tag_id = ''test_tag'', required = None, max_chars = Some 5, max_words = Some 1\<rparr>
          noFrontmatter)
     = Parent ''root'' []
         [block [''other_tag''] ''untagged content'',
          Parent ''block'' [''test_tag''] [],
          Parent ''block'' [''other_tag'', ''test_tag''] []] \<and>
   nodeAt (snd (extractTaggedContent plainRender deepTree
          \<lparr>tag_id = ''test_tag'', required = None, max_chars = Some 5, max_words = Some 1\<rparr>
          noFrontmatter)) [0, 0]
     = Some (Parent ''block'' [''test_tag''] []) \<and>
   nodeAt (snd (extractTaggedContent plainRender deepTree
          \<lparr>tag_id = ''test_tag'', required = None, max_chars = Some 5, max_words = Some 1\<rparr>
          noFrontmatter)) [0, 1]
     = Some (Leaf ''text'' (Some ''untagged content''))"
proof -
  let ?untagged = "Parent ''root'' [] [Leaf ''text'' (Some ''untagged content'')]"
  let ?plain = "\<lparr>tag_id = ''test_tag'', required = Some True, max_chars = None, max_words = None\<rparr>"
  let ?td = "\<lparr>tag_id = ''test_tag'', required = None, max_chars = Some 5, max_words = Some 1\<rparr>"
  have none: "taggedBlocks (tag_id ?plain) ?untagged = []"
    by simp
  have blocks: "taggedBlocks (tag_id ?td) testTree
                = [block [''test_tag''] ''tagged content'',
                   block [''other_tag'', ''test_tag''] ''also tagged content'']"
    by (simp add: testTree_def block_def)
  have present: "taggedBlocks (tag_id ?td) testTree \<noteq> []"
    using blocks by simp
  have first: "extractTaggedContent plainRender ?untagged ?plain noFrontmatter = (None, ?untagged)"
    using extractTaggedContent_behaviour
            [where td = ?plain and tree = ?untagged and render = plainRender and fm = noFrontmatter]
          none
    by blast
  have "\<exists>r. fst (extractTaggedContent plainRender testTree ?td noFrontmatter) = Some r \<and>
            texValue r = joinWith [CHR 0x0A, CHR 0x0A]
              (map (\<lambda>b. texValue (plainRender (nodeChildren b) noFrontmatter))
                   (taggedBlocks (tag_id ?td) testTree))"
    using extractTaggedContent_behaviour
            [where td = ?td and tree = testTree and render = plainRender and fm = noFrontmatter]
          present
    by blast
  then have second: "\<exists>r. fst (extractTaggedContent plainRender testTree ?td noFrontmatter) = Some r \<and>
            texValue r = ''tagged content'' @ [CHR 0x0A, CHR 0x0A] @ ''also tagged content''"
    unfolding blocks by (simp add: block_def plainRender_def plainResult_def)
  have third: "snd (extractTaggedContent plainRender testTree ?td noFrontmatter)
     = Parent ''root'' []
         [block [''other_tag''] ''untagged content'',
          Parent ''block'' [''test_tag''] [],
          Parent ''block'' [''other_tag'', ''test_tag''] []]"
    by (simp add: extractTaggedContent_def testTree_def block_def Let_def)
  note deep = extractTaggedContent_behaviour
      [where td = ?td and tree = deepTree and render = plainRender and fm = noFrontmatter]
  have above: "\<forall>k < length [0, n]. \<forall>m. nodeAt deepTree (take k [0, n]) = Some m \<longrightarrow>
                 \<not> carriesTag (tag_id ?td) m" for n :: nat
    by (simp add: deepTree_def less_Suc_eq)
  have tagged: "nodeAt deepTree [0, 0] = Some (block [''test_tag''] ''tagged content'')"
               "carriesTag (tag_id ?td) (block [''test_tag''] ''tagged content'')"
    by (simp_all add: deepTree_def block_def)
  have plain: "nodeAt deepTree [0, 1] = Some (Leaf ''text'' (Some ''untagged content''))"
              "taggedBlocks (tag_id ?td) (Leaf ''text'' (Some ''untagged content'')) = []"
    by (simp_all add: deepTree_def)
  from deep tagged above [of 0]
  have "nodeAt (snd (extractTaggedContent plainRender deepTree ?td noFrontmatter)) [0, 0]
        = Some (Parent (nodeType (block [''test_tag''] ''tagged content''))
                       (nodeTags (block [''test_tag''] ''tagged content'')) [])"
    by blast
  then have fourth:
    "nodeAt (snd (extractTaggedContent plainRender deepTree ?td noFrontmatter)) [0, 0]
     = Some (Parent ''block'' [''test_tag''] [])"
    by (simp add: block_def)
  from deep plain above [of 1]
  have fifth:
    "nodeAt (snd (extractTaggedContent plainRender deepTree ?td noFrontmatter)) [0, 1]
     = Some (Leaf ''text'' (Some ''untagged content''))"
    by blast
  from first second third fourth fifth show ?thesis by blast
qed

section \<open>Template parts\<close>

lemma mdastToTexEach_Cons:
  "mdastToTexEach env s (tree # trees) refs fm yml =
     (fst (mdastToTex env s tree refs fm yml False) #
        fst (mdastToTexEach env (snd (mdastToTex env s tree refs fm yml False)) trees refs fm yml),
      snd (mdastToTexEach env (snd (mdastToTex env s tree refs fm yml False)) trees refs fm yml))"
  by (simp add: Let_def case_prod_beta)

lemma length_mdastToTexEach:
  "length (fst (mdastToTexEach env s trees refs fm yml)) = length trees"
proof (induction trees arbitrary: s)
  case Nil
  then show ?case by simp
next
  case (Cons tree trees)
  then show ?case unfolding mdastToTexEach_Cons by simp
qed

lemma renders_mdastToTexEach:
  "\<exists>new. renders (snd (mdastToTexEach env s trees refs fm yml)) = renders s @ new \<and>
         (\<forall>c \<in> set new. \<not> glossaryPrinting c)"
proof (induction trees arbitrary: s)
  case Nil
  then show ?case by simp
next
  case (Cons tree trees)
  let ?call = "\<lparr>renderedTree = tree, withTemplate = (yml \<noteq> None), glossaryPrinting = False\<rparr>"
  let ?s1 = "snd (mdastToTex env s tree refs fm yml False)"
  have s1: "renders ?s1 = renders s @ [?call]"
    by (simp add: mdastToTex_def)
  from Cons [of ?s1] obtain new where
    new: "renders (snd (mdastToTexEach env ?s1 trees refs fm yml)) = renders ?s1 @ new"
         "\<forall>c \<in> set new. \<not> glossaryPrinting c"
    by blast
  have "renders (snd (mdastToTexEach env s (tree # trees) refs fm yml)) = renders s @ (?call # new)"
    unfolding mdastToTexEach_Cons using s1 new(1) by simp
  moreover have "\<forall>c \<in> set (?call # new). \<not> glossaryPrinting c"
    using new(2) by simp
  ultimately show ?case by blast
qed

text \<open>
  What holds of C4: a part extracted with \<^verbatim>\<open>as_list\<close> that is not list-shaped gives one
  fragment for each of its top-level children, and a list-shaped part gives one fragment
  for each \<^verbatim>\<open>listItem\<close> node found anywhere in the part.
\<close>

lemma extractTexPart_fragment_count:
  assumes "extractPart env tree (part_id partDefinition) = Some (part, tree')"
    and "as_list partDefinition"
  shows "\<exists>rs. fst (extractTexPart env s tree refs partDefinition fm yml) = Some (TexParts rs) \<and>
              length rs = (if isSingleList part then length (selectAll ''listItem'' part)
                           else length (nodeChildren part))"
proof (cases "isSingleList part")
  case True
  let ?trees = "map (\<lambda>item. Parent ''root'' [] (nodeChildren item)) (selectAll ''listItem'' part)"
  have "fst (extractTexPart env s tree refs partDefinition fm yml)
        = Some (TexParts (fst (mdastToTexEach env s ?trees refs fm (Some yml))))"
    using assms True by (simp add: extractTexPart_def Let_def case_prod_beta)
  moreover have "length (fst (mdastToTexEach env s ?trees refs fm (Some yml)))
                 = length (selectAll ''listItem'' part)"
    by (simp add: length_mdastToTexEach)
  ultimately show ?thesis using True by simp
next
  case False
  let ?trees = "map (\<lambda>block. Parent ''root'' [] [block]) (nodeChildren part)"
  have "fst (extractTexPart env s tree refs partDefinition fm yml)
        = Some (TexParts (fst (mdastToTexEach env s ?trees refs fm (Some yml))))"
    using assms False by (simp add: extractTexPart_def Let_def case_prod_beta)
  moreover have "length (fst (mdastToTexEach env s ?trees refs fm (Some yml)))
                 = length (nodeChildren part)"
    by (simp add: length_mdastToTexEach)
  ultimately show ?thesis using False by simp
qed

text \<open>
  C4, at a list whose first item holds a nested list. The part is one block holding one
  list with two items, so the claim asks for two fragments. \<open>extractTexPart\<close> returns
  three: the first item (with its nested list), the nested item once more on its own, and
  the second item.
\<close>

theorem extractTexPart_nested_list_items:
  "examplePart (Parent ''root'' [] [nestedListPart, block [] ''body'']) ''keywords''
     = Some (Parent ''root'' [] [nestedListPart], Parent ''root'' [] [block [] ''body'']) \<and>
   isSingleList (Parent ''root'' [] [nestedListPart]) \<and>
   (\<exists>items. nodeChildren nestedListPart = [Parent ''list'' [] items] \<and> length items = 2) \<and>
   fst (extractTexPart (exampleEnv [] [keywordsDef]) emptySession
          (Parent ''root'' [] [nestedListPart, block [] ''body'']) [] keywordsDef noFrontmatter
          \<lparr>template_parts = Some [keywordsDef], packages = []\<rparr>)
     = Some (TexParts [plainResult ''ab'', plainResult ''b'', plainResult ''c''])"
  by (simp add: examplePart_def nestedListPart_def block_def isSingleList_def listItem_def
      textLeaf_def extractTexPart_def exampleEnv_def keywordsDef_def mdastToTex_def Let_def)

text \<open>
  What holds of C6: a later article's value for a part id is discarded, with an error
  diagnostic and the first value kept, whenever the value already held is truthy: a
  non-empty string or any list.
\<close>

lemma collectPart_first_writer_wins:
  assumes "extractTexPart env s tree refs partDef fm yml = (Some part, tree1, s1)"
    and "truthyPart (parts acc (part_id partDef))"
  shows "collectPart env file art refs fm yml (acc, tree, s) partDef
         = (acc, tree1,
            addWarningForFile s1 file (multipleValuesMessage (part_id partDef) art) ''error'')"
  using assms by (simp add: collectPart_def)

text \<open>
  C6, at an empty first value. Two articles both carry the part \<^verbatim>\<open>abstract\<close>; the first
  renders to the empty string, the second to \<^verbatim>\<open>B\<close>. After the first article the part
  holds the empty string; after the job it holds \<^verbatim>\<open>B\<close>, and no diagnostic was emitted.
\<close>

theorem templated_job_empty_first_part_overwritten:
  "parts (fst (snd (templatedArticle
       (exampleEnv [article [Parent ''block'' [''abstract''] [], block [] ''one''],
                    article [block [''abstract''] ''B'', block [] ''two'']] [abstractDef])
       ''/proj/index.md'' \<lparr>template_parts = Some [abstractDef], packages = []\<rparr> [abstractDef]
       [''/proj/a.md'', ''/proj/b.md''] ([], initialJobState, emptySession)
       (0, article [Parent ''block'' [''abstract''] [], block [] ''one''])))) ''abstract''
     = Some (PartString []) \<and>
   map (\<lambda>c. templateParts c ''abstract'')
     (templateCalls (snd (localArticleToTexTemplated
        (exampleEnv [article [Parent ''block'' [''abstract''] [], block [] ''one''],
                     article [block [''abstract''] ''B'', block [] ''two'']] [abstractDef])
        emptySession ''/proj/index.md''
        (texJobFor Unspecified [''/proj/a.md'', ''/proj/b.md'']) None False)))
     = [Some (PartString ''B'')] \<and>
   warnings (snd (localArticleToTexTemplated
        (exampleEnv [article [Parent ''block'' [''abstract''] [], block [] ''one''],
                     article [block [''abstract''] ''B'', block [] ''two'']] [abstractDef])
        emptySession ''/proj/index.md''
        (texJobFor Unspecified [''/proj/a.md'', ''/proj/b.md'']) None False))
     = []"
  by code_simp
section \<open>Raw jobs and glossaries\<close>

lemma renders_writeFileToFolder: "renders (writeFileToFolder s file content) = renders s"
  by (simp add: writeFileToFolder_def)

lemma renders_foldl_preserved:
  assumes "\<And>s x. renders (h s x) = renders s"
  shows "renders (foldl h s xs) = renders s"
  by (induction xs arbitrary: s) (simp_all add: assms)

lemma renders_foldl_rawArticle:
  "\<exists>new. renders (snd (foldl (rawArticle env as) (rs, s) xs)) = renders s @ new \<and>
         length new = length xs \<and>
         (\<forall>c \<in> set new. \<not> glossaryPrinting c \<and> \<not> withTemplate c)"
proof (induction xs arbitrary: rs s)
  case Nil
  then show ?case by simp
next
  case (Cons x xs)
  obtain ind c where x: "x = (ind, c)" by (cases x)
  let ?tree = "finalizeMdast env (mdast c) (frontmatter c) (articleAt as ind)"
  let ?call = "\<lparr>renderedTree = ?tree, withTemplate = False, glossaryPrinting = False\<rparr>"
  obtain rs1 s1 where step: "rawArticle env as (rs, s) x = (rs1, s1)"
    by (cases "rawArticle env as (rs, s) x")
  then have s1: "renders s1 = renders s @ [?call]"
    using x by (auto simp: rawArticle_def mdastToTex_def Let_def)
  from Cons [of rs1 s1] obtain new where
    new: "renders (snd (foldl (rawArticle env as) (rs1, s1) xs)) = renders s1 @ new"
         "length new = length xs"
         "\<forall>c \<in> set new. \<not> glossaryPrinting c \<and> \<not> withTemplate c"
    by blast
  have "renders (snd (foldl (rawArticle env as) (rs, s) (x # xs))) = renders s @ (?call # new)"
    using step s1 new(1) by simp
  moreover have "length (?call # new) = length (x # xs)"
    using new(2) by simp
  moreover have "\<forall>c \<in> set (?call # new). \<not> glossaryPrinting c \<and> \<not> withTemplate c"
    using new(3) by simp
  ultimately show ?case by blast
qed

text \<open>
  What holds of C5: a raw job invokes the renderer once for every article, each time
  without template and with glossary printing disabled.
\<close>

lemma localArticleToTexRaw_never_prints_glossaries:
  "\<exists>new. renders (snd (localArticleToTexRaw env s exportOptions projectPath)) = renders s @ new \<and>
         length new = length (getFileContent env (articlesOf exportOptions)) \<and>
         (\<forall>c \<in> set new. \<not> glossaryPrinting c \<and> \<not> withTemplate c)"
proof -
  let ?as = "articlesOf exportOptions"
  let ?content = "getFileContent env ?as"
  obtain rs s1 where run: "foldl (rawArticle env ?as) ([], s) (enumerate 0 ?content) = (rs, s1)"
    by (cases "foldl (rawArticle env ?as) ([], s) (enumerate 0 ?content)")
  from renders_foldl_rawArticle [of env ?as "[]" s "enumerate 0 ?content"] run
  obtain new where new: "renders s1 = renders s @ new" "length new = length ?content"
      "\<forall>c \<in> set new. \<not> glossaryPrinting c \<and> \<not> withTemplate c"
    by auto
  have "renders (snd (localArticleToTexRaw env s exportOptions projectPath)) = renders s1"
    using run
    by (simp add: localArticleToTexRaw_def Let_def renders_writeFileToFolder case_prod_beta
        renders_foldl_preserved)
  with new show ?thesis by auto
qed

text \<open>
  The result of a raw job carries no glossary-presence flag, whatever its articles hold.
\<close>

lemma localArticleToTexRaw_reports_no_glossary_flag:
  "hasGlossaries (fst (localArticleToTexRaw env s exportOptions projectPath)) = None"
  by (simp add: localArticleToTexRaw_def Let_def case_prod_beta)

text \<open>
  C5, at an article that holds a glossary. Exported raw (template \<^verbatim>\<open>null\<close>), the renderer
  is invoked once, with glossary printing disabled, and the result carries no
  glossary-presence flag; the same article exported with a template reports the flag as
  true.
\<close>

theorem raw_export_drops_glossary_presence:
  "hasGlossary (mdast (article [Parent ''glossary'' [] [textLeaf ''term''], block [] ''body''])) \<and>
   map glossaryPrinting (renders (snd (runTexExport
       (exampleEnv [article [Parent ''glossary'' [] [textLeaf ''term''], block [] ''body'']] [])
       emptySession ''/proj/index.md'' (texJobFor Disabled [''/proj/index.md'']) None False)))
     = [False] \<and>
   fst (runTexExport
       (exampleEnv [article [Parent ''glossary'' [] [textLeaf ''term''], block [] ''body'']] [])
       emptySession ''/proj/index.md'' (texJobFor Disabled [''/proj/index.md'']) None False)
     = \<lparr>tempFolders = [], hasGlossaries = None\<rparr> \<and>
   fst (runTexExport
       (exampleEnv [article [Parent ''glossary'' [] [textLeaf ''term''], block [] ''body'']] [])
       emptySession ''/proj/index.md'' (texJobFor Unspecified [''/proj/index.md'']) None False)
     = \<lparr>tempFolders = [], hasGlossaries = Some True\<rparr>"
  by code_simp

section \<open>Articles finishing out of order\<close>

text \<open>
  The loop in completion order, taken at the declared order, is the loop of
  \<open>localArticleToTexTemplated\<close>: the results come back in article order, and state and
  session are those of the fold over the articles as declared.
\<close>

lemma length_foldl_templatedArticle:
  "length (fst (foldl (templatedArticle env file yml defs as) (rs, acc, s) xs))
   = length rs + length xs"
proof (induction xs arbitrary: rs acc s)
  case Nil
  then show ?case by simp
next
  case (Cons x xs)
  obtain rs1 acc1 s1 where step: "templatedArticle env file yml defs as (rs, acc, s) x = (rs1, acc1, s1)"
    by (cases "templatedArticle env file yml defs as (rs, acc, s) x") auto
  then have "length rs1 = Suc (length rs)"
    by (cases x) (auto simp: templatedArticle_def Let_def split: prod.splits)
  with Cons [of rs1 acc1 s1] step show ?case by simp
qed

lemma enumerate_nth: "enumerate 0 xs = map (\<lambda>i. (i, xs ! i)) [0..<length xs]"
  by (simp add: enumerate_eq_zip zip_eq_conv comp_def map_nth)

lemma templatedLoop_declared_order:
  "templatedLoop env file yml defs as content [0..<length content] s
   = foldl (templatedArticle env file yml defs as) ([], initialJobState, s) (enumerate 0 content)"
proof -
  let ?run = "foldl (templatedArticle env file yml defs as) ([], initialJobState, s)
                    (enumerate 0 content)"
  obtain rs acc s1 where run: "?run = (rs, acc, s1)"
    by (cases ?run) auto
  have "length (fst ?run) = length (enumerate 0 content)"
    using length_foldl_templatedArticle [where rs = "[]" and xs = "enumerate 0 content"]
    by simp
  with run have len: "length rs = length content" by simp
  then have "map fst (zip [0..<length content] rs) = [0..<length content]"
    by simp
  then have "sorted (map fst (zip [0..<length content] rs))"
    by simp
  then have "sort_key fst (zip [0..<length content] rs) = zip [0..<length content] rs"
    by (rule sort_key_id_if_sorted)
  moreover have "map snd (zip [0..<length content] rs) = rs"
    using len by simp
  ultimately show ?thesis
    using run by (simp add: templatedLoop_def enumerate_nth [symmetric])
qed

section \<open>Export Job Resolver: overrides and multiplicity\<close>

lemma length_definedOnly: "length (definedOnly xs) \<le> length xs"
  by (induction xs rule: definedOnly.induct) auto

lemma prepareExportOptions_single:
  assumes "truthy (filename opts) \<or> disableTemplate opts \<or> truthy (template_opt opts)"
  shows "length (fst (prepareExportOptions env s sourceFile formats projectPath opts)) \<le> 1"
proof -
  define declared where "declared = getExportListFromRawFrontmatter env formats
      (if truthy projectPath \<and> Some sourceFile = selectLocalConfigFile env (the projectPath)
       then selectRawProjectConfig env (the projectPath)
       else getRawFrontmatterFromFile env sourceFile projectPath) sourceFile"
  define defaulted where "defaulted =
      (if length declared = 0 \<and> formats \<noteq> [] \<and> force opts
       then [\<lparr>format = hd formats, outputPath = None, template = Unspecified,
              articles = None, sub_articles = None\<rparr>]
       else declared)"
  define checked where "checked = map (checkArticles env sourceFile opts)
      (map fst (map (defaultArticles env sourceFile) (take 1 defaulted)))"
  have "fst (prepareExportOptions env s sourceFile formats projectPath opts)
        = definedOnly (map fst checked)"
    using assms
    unfolding prepareExportOptions_def Let_def checked_def defaulted_def declared_def
    by simp
  moreover have "length (definedOnly (map fst checked)) \<le> length (map fst checked)"
    by (rule length_definedOnly)
  moreover have "length (map fst checked) \<le> 1"
    by (simp add: checked_def)
  ultimately show ?thesis by simp
qed

lemma filterAndMakeUnique_single:
  assumes "length (definedOnly xs) \<le> 1"
  shows "filterAndMakeUnique xs = definedOnly xs"
proof (cases "definedOnly xs")
  case Nil
  then show ?thesis by (simp add: filterAndMakeUnique_def)
next
  case (Cons x rest)
  with assms have "definedOnly xs = [x]" by simp
  then show ?thesis
    by (simp add: filterAndMakeUnique_def makeUnique_def nMatch_def)
qed

lemma prepareExportOptions_first_entry:
  assumes "truthy (filename opts) \<or> disableTemplate opts \<or> truthy (template_opt opts)"
    and "getExportListFromRawFrontmatter env formats
           (if truthy projectPath \<and> Some sourceFile = selectLocalConfigFile env (the projectPath)
            then selectRawProjectConfig env (the projectPath)
            else getRawFrontmatterFromFile env sourceFile projectPath) sourceFile = e # rest"
  shows "fst (prepareExportOptions env s sourceFile formats projectPath opts)
         = definedOnly [fst (checkArticles env sourceFile opts (fst (defaultArticles env sourceFile e)))]"
  using assms unfolding prepareExportOptions_def Let_def by simp

lemma resolver_fields_ignore_declared:
  "cwd (env\<lparr>getExportListFromRawFrontmatter := g\<rparr>) = cwd env"
  "existsSync (env\<lparr>getExportListFromRawFrontmatter := g\<rparr>) = existsSync env"
  by simp_all

lemma resolver_calls_ignore_declared:
  "resolveExisting (env\<lparr>getExportListFromRawFrontmatter := g\<rparr>) = resolveExisting env"
  "getOutput (env\<lparr>getExportListFromRawFrontmatter := g\<rparr>) = getOutput env"
  by (intro ext; simp add: resolveExisting_def getOutput_def Let_def)+

lemmas resolver_parts_ignore_declared =
  resolver_fields_ignore_declared resolver_calls_ignore_declared

lemma defaultArticles_ignores_declared:
  "defaultArticles (env\<lparr>getExportListFromRawFrontmatter := g\<rparr>) = defaultArticles env"
proof (intro ext)
  fix src exp
  show "defaultArticles (env\<lparr>getExportListFromRawFrontmatter := g\<rparr>) src exp
        = defaultArticles env src exp"
    unfolding defaultArticles_def resolver_parts_ignore_declared by simp
qed

lemma checkArticles_ignores_declared:
  "checkArticles (env\<lparr>getExportListFromRawFrontmatter := g\<rparr>) = checkArticles env"
proof (intro ext)
  fix src opts exp
  show "checkArticles (env\<lparr>getExportListFromRawFrontmatter := g\<rparr>) src opts exp
        = checkArticles env src opts exp"
    unfolding checkArticles_def resolver_parts_ignore_declared by simp
qed

lemma resolveTexExport_ignores_declared:
  "resolveTexExport (env\<lparr>getExportListFromRawFrontmatter := g\<rparr>) = resolveTexExport env"
proof (intro ext)
  fix src extension formats projectPath opts exp
  show "resolveTexExport (env\<lparr>getExportListFromRawFrontmatter := g\<rparr>) src extension formats
          projectPath opts exp
        = resolveTexExport env src extension formats projectPath opts exp"
    unfolding resolveTexExport_def resolver_parts_ignore_declared by simp
qed

lemmas resolver_steps_ignore_declared =
  defaultArticles_ignores_declared checkArticles_ignores_declared
  resolveTexExport_ignores_declared

lemma prepareExportOptions_first_only:
  assumes "truthy (filename opts) \<or> disableTemplate opts \<or> truthy (template_opt opts)"
    and "\<forall>fm. take 1 (g formats fm sourceFile)
              = take 1 (getExportListFromRawFrontmatter env formats fm sourceFile)"
  shows "prepareExportOptions (env\<lparr>getExportListFromRawFrontmatter := g\<rparr>) s sourceFile formats
           projectPath opts
         = prepareExportOptions env s sourceFile formats projectPath opts"
proof -
  let ?fm = "if truthy projectPath \<and> Some sourceFile = selectLocalConfigFile env (the projectPath)
             then selectRawProjectConfig env (the projectPath)
             else getRawFrontmatterFromFile env sourceFile projectPath"
  let ?default = "[\<lparr>format = hd formats, outputPath = None, template = Unspecified,
                    articles = None, sub_articles = None\<rparr>]"
  let ?mine = "g formats ?fm sourceFile"
  let ?theirs = "getExportListFromRawFrontmatter env formats ?fm sourceFile"
  define finish where "finish single =
      (let first = map (defaultArticles env sourceFile) single;
           second = map (checkArticles env sourceFile opts) (map fst first)
       in (definedOnly (map fst second),
           logMessagesFromVFile s sourceFile (concat (map snd first) @ concat (map snd second))))"
    for single
  from assms(2) have same: "take 1 ?mine = take 1 ?theirs"
    by blast
  then have empty: "(length ?mine = 0) = (length ?theirs = 0)"
    by (cases ?mine; cases ?theirs) simp_all
  have key: "take 1 (if length ?mine = 0 \<and> formats \<noteq> [] \<and> force opts then ?default else ?mine)
        = take 1 (if length ?theirs = 0 \<and> formats \<noteq> [] \<and> force opts then ?default else ?theirs)"
    using same empty by simp
  have theirs: "prepareExportOptions env s sourceFile formats projectPath opts
      = finish (take 1 (if length ?theirs = 0 \<and> formats \<noteq> [] \<and> force opts
                        then ?default else ?theirs))"
    using assms(1)
    by (simp add: prepareExportOptions_def finish_def Let_def split del: if_split cong: if_cong)
  have mine: "prepareExportOptions (env\<lparr>getExportListFromRawFrontmatter := g\<rparr>) s sourceFile
                formats projectPath opts
      = finish (take 1 (if length ?mine = 0 \<and> formats \<noteq> [] \<and> force opts
                        then ?default else ?mine))"
    using assms(1)
    by (simp add: prepareExportOptions_def finish_def Let_def resolver_steps_ignore_declared
        split del: if_split cong: if_cong)
  show ?thesis
    unfolding mine theirs key ..
qed

text \<open>
  C3, as stated: \<^verbatim>\<open>force\<close> and \<^verbatim>\<open>zip\<close> do not truncate. With two declared exports and
  \<^verbatim>\<open>force\<close> as the only override, two jobs are resolved; likewise with \<^verbatim>\<open>zip\<close> as the only
  override.
\<close>

theorem override_force_zip_counterexample:
  "fst (collectTexExportOptions
       (exampleResolverEnv [declaredTex ''a.tex'', declaredTex ''b.tex'']) emptySession
       ''index.md'' ''tex'' [tex] None (overrides None None False True False))
     = Inr [texJob ''/proj/a.tex'', texJob ''/proj/b.tex''] \<and>
   fst (collectTexExportOptions
       (exampleResolverEnv [declaredTex ''a.zip'', declaredTex ''b.zip'']) emptySession
       ''index.md'' ''tex'' [tex] None (overrides None None False False True))
     = Inr [texJob ''/proj/a.zip'', texJob ''/proj/b.zip'']"
  by code_simp

text \<open>
  C3 (amended): for every Resolver invocation in which a \<^verbatim>\<open>filename\<close>, a \<^verbatim>\<open>template\<close> or the
  \<^verbatim>\<open>disableTemplate\<close> override is supplied, the resolved export list is truncated to its
  first entry, regardless of how many export entries the front matter declares: the
  prepared list and the list of jobs have at most one element; with declared entries
  \<open>e # rest\<close> the prepared list is what the first entry \<open>e\<close> alone gives after the article
  checks, and the jobs are the resolution of that list, with no renaming; and the whole
  result, jobs and diagnostics, is the same for any other list of declarations with the
  same first entry.
\<close>

theorem collectTexExportOptions_single_on_override:
  assumes "truthy (filename opts) \<or> disableTemplate opts \<or> truthy (template_opt opts)"
    and "declared = getExportListFromRawFrontmatter env formats
           (if truthy projectPath \<and> Some sourceFile = selectLocalConfigFile env (the projectPath)
            then selectRawProjectConfig env (the projectPath)
            else getRawFrontmatterFromFile env sourceFile projectPath) sourceFile"
  shows "length (fst (prepareExportOptions env s sourceFile formats projectPath opts)) \<le> 1 \<and>
         (\<forall>jobs. fst (collectTexExportOptions env s sourceFile extension formats projectPath opts)
                   = Inr jobs \<longrightarrow>
            length jobs \<le> 1 \<and>
            jobs = definedOnly
                     (map (\<lambda>x. fst (resolveTexExport env sourceFile extension formats projectPath
                                       opts x))
                          (fst (prepareExportOptions env s sourceFile formats projectPath opts)))) \<and>
         (\<forall>e rest. declared = e # rest \<longrightarrow>
            fst (prepareExportOptions env s sourceFile formats projectPath opts)
              = definedOnly
                  [fst (checkArticles env sourceFile opts (fst (defaultArticles env sourceFile e)))]) \<and>
         (\<forall>g. (\<forall>fm. take 1 (g formats fm sourceFile)
                     = take 1 (getExportListFromRawFrontmatter env formats fm sourceFile)) \<longrightarrow>
            collectTexExportOptions (env\<lparr>getExportListFromRawFrontmatter := g\<rparr>) s sourceFile
                extension formats projectPath opts
              = collectTexExportOptions env s sourceFile extension formats projectPath opts)"
proof -
  let ?prepared = "fst (prepareExportOptions env s sourceFile formats projectPath opts)"
  let ?resolved = "map (\<lambda>x. fst (resolveTexExport env sourceFile extension formats projectPath opts x))
                       ?prepared"
  have prepared: "length ?prepared \<le> 1"
    using assms(1) by (rule prepareExportOptions_single)
  have few: "length (definedOnly ?resolved) \<le> 1"
    using prepared length_definedOnly [of ?resolved] by simp
  have jobs: "\<forall>jobs. fst (collectTexExportOptions env s sourceFile extension formats projectPath opts)
                      = Inr jobs \<longrightarrow>
                length jobs \<le> 1 \<and> jobs = definedOnly ?resolved"
  proof (intro allI impI)
    fix jobs
    assume "fst (collectTexExportOptions env s sourceFile extension formats projectPath opts)
            = Inr jobs"
    then have "jobs = filterAndMakeUnique ?resolved"
      by (auto simp: collectTexExportOptions_def Let_def case_prod_beta comp_def
          split: if_splits)
    with few have "jobs = definedOnly ?resolved"
      by (simp add: filterAndMakeUnique_single)
    with few show "length jobs \<le> 1 \<and> jobs = definedOnly ?resolved" by simp
  qed
  have first: "\<forall>e rest. declared = e # rest \<longrightarrow> ?prepared
        = definedOnly [fst (checkArticles env sourceFile opts (fst (defaultArticles env sourceFile e)))]"
  proof (intro allI impI)
    fix e rest
    assume "declared = e # rest"
    with assms(2) have "getExportListFromRawFrontmatter env formats
           (if truthy projectPath \<and> Some sourceFile = selectLocalConfigFile env (the projectPath)
            then selectRawProjectConfig env (the projectPath)
            else getRawFrontmatterFromFile env sourceFile projectPath) sourceFile = e # rest"
      by simp
    with assms(1) show "?prepared
        = definedOnly [fst (checkArticles env sourceFile opts (fst (defaultArticles env sourceFile e)))]"
      by (rule prepareExportOptions_first_entry)
  qed
  have tail: "\<forall>g. (\<forall>fm. take 1 (g formats fm sourceFile)
                     = take 1 (getExportListFromRawFrontmatter env formats fm sourceFile)) \<longrightarrow>
            collectTexExportOptions (env\<lparr>getExportListFromRawFrontmatter := g\<rparr>) s sourceFile
                extension formats projectPath opts
              = collectTexExportOptions env s sourceFile extension formats projectPath opts"
  proof (intro allI impI)
    fix g
    assume "\<forall>fm. take 1 (g formats fm sourceFile)
                 = take 1 (getExportListFromRawFrontmatter env formats fm sourceFile)"
    with assms(1) have "prepareExportOptions (env\<lparr>getExportListFromRawFrontmatter := g\<rparr>) s
                          sourceFile formats projectPath opts
                        = prepareExportOptions env s sourceFile formats projectPath opts"
      by (rule prepareExportOptions_first_only)
    then show "collectTexExportOptions (env\<lparr>getExportListFromRawFrontmatter := g\<rparr>) s sourceFile
                 extension formats projectPath opts
               = collectTexExportOptions env s sourceFile extension formats projectPath opts"
      unfolding collectTexExportOptions_def resolver_steps_ignore_declared by simp
  qed
  from prepared jobs first tail show ?thesis by blast
qed

theorem collectTexExportOptions_single_on_override_witness:
  "fst (collectTexExportOptions
          (exampleResolverEnv [declaredTex ''a.tex'', declaredTex ''b.tex'']) emptySession
          ''index.md'' ''tex'' [tex] None (overrides (Some ''/out/paper.tex'') None False False False))
     = Inr [texJob ''/out/paper.tex''] \<and>
   fst (prepareExportOptions
          (exampleResolverEnv [declaredTex ''a.tex'', declaredTex ''b.tex'']) emptySession
          ''index.md'' [tex] None (overrides (Some ''/out/paper.tex'') None False False False))
     = [(declaredTex ''a.tex'')\<lparr>articles := Some [''/proj/index.md'']\<rparr>]"
proof -
  let ?declared = "[declaredTex ''a.tex'', declaredTex ''b.tex'']"
  let ?env = "exampleResolverEnv ?declared"
  let ?opts = "overrides (Some ''/out/paper.tex'') None False False False"
  have override: "truthy (filename ?opts) \<or> disableTemplate ?opts \<or> truthy (template_opt ?opts)"
    by (simp add: overrides_def)
  have declared: "?declared = getExportListFromRawFrontmatter ?env [tex]
           (if truthy None \<and> Some ''index.md'' = selectLocalConfigFile ?env (the None)
            then selectRawProjectConfig ?env (the None)
            else getRawFrontmatterFromFile ?env ''index.md'' None) ''index.md''"
    by (simp add: exampleResolverEnv_def)
  note single = collectTexExportOptions_single_on_override
      [OF override declared, where s = emptySession and extension = "''tex''"]
  have run: "fst (collectTexExportOptions ?env emptySession ''index.md'' ''tex'' [tex] None ?opts)
             = Inr [texJob ''/out/paper.tex'']"
    by code_simp
  have first: "definedOnly [fst (checkArticles ?env ''index.md'' ?opts
                                   (fst (defaultArticles ?env ''index.md'' (declaredTex ''a.tex''))))]
               = [(declaredTex ''a.tex'')\<lparr>articles := Some [''/proj/index.md'']\<rparr>]"
    by code_simp
  from single have "fst (prepareExportOptions ?env emptySession ''index.md'' [tex] None ?opts)
      = definedOnly [fst (checkArticles ?env ''index.md'' ?opts
                            (fst (defaultArticles ?env ''index.md'' (declaredTex ''a.tex''))))]"
    by blast
  with first run show ?thesis by simp
qed

end
